theory Spec2Isabelle
  imports Main "HOL-Library.Word" "HOL-Library.Sublist" "HOL-Library.AList"
begin

section \<open>Basic types\<close>

text \<open>
  Byte slices and Go strings are byte lists. A \<open>time.Time\<close> is the instant it denotes,
  counted from Go's zero time (January 1, year 1, 00:00:00 UTC), so \<open>IsZero\<close> is
  equality with \<open>0\<close>.
\<close>

type_synonym bytes = string
type_synonym time = int

text \<open>
  Go \<open>error\<close> values. The \<open>errors.New\<close> messages of the source are constructors of
  their own; an error produced by a library or by a remote party is \<open>ErrExternal\<close>;
  \<open>fmt.Errorf("...: %w", err)\<close> is \<open>ErrWrap\<close>.
\<close>

datatype error =
    ErrMissingCID
  | ErrMissingPeerID
  | ErrNoLabels
  | ErrTooManyLabels
  | ErrMissingTimestamp
  | ErrExceedsMaxSize
  | ErrCanceled
  | ErrExternal string
  | ErrWrap string error

section \<open>Package pubsub: the wire format (messages.go)\<close>

record LabelAnnouncement =
  CID :: string
  PeerID :: string
  Labels :: "string list"
  Timestamp :: time

text \<open>
  What package pubsub takes from outside this file: the two protocol constants of
  constants.go, and \<open>json.Marshal\<close> and \<open>json.Unmarshal\<close> of encoding/json at the
  type \<open>LabelAnnouncement\<close>. They are parameters of the model.
\<close>

record pubsub_lib =
  MaxMessageSize :: nat
  MaxLabelsPerAnnouncement :: nat
  jsonMarshalAnn :: "LabelAnnouncement \<Rightarrow> error + bytes"
  jsonUnmarshalAnn :: "bytes \<Rightarrow> error + LabelAnnouncement"

definition Validate :: "pubsub_lib \<Rightarrow> LabelAnnouncement \<Rightarrow> error option" where
  "Validate L a =
     (if CID a = [] then Some ErrMissingCID
      else if PeerID a = [] then Some ErrMissingPeerID
      else if length (Labels a) = 0 then Some ErrNoLabels
      else if length (Labels a) > MaxLabelsPerAnnouncement L then Some ErrTooManyLabels
      else if Timestamp a = 0 then Some ErrMissingTimestamp
      else None)"

definition Marshal :: "pubsub_lib \<Rightarrow> LabelAnnouncement \<Rightarrow> error + bytes" where
  "Marshal L a =
     (case jsonMarshalAnn L a of
        Inl err \<Rightarrow> Inl (ErrWrap ''failed to marshal label announcement'' err)
      | Inr data \<Rightarrow>
          if length data > MaxMessageSize L then Inl ErrExceedsMaxSize
          else Inr data)"

definition UnmarshalLabelAnnouncement :: "pubsub_lib \<Rightarrow> bytes \<Rightarrow> error + LabelAnnouncement" where
  "UnmarshalLabelAnnouncement L data =
     (if length data > MaxMessageSize L then Inl ErrExceedsMaxSize
      else case jsonUnmarshalAnn L data of
        Inl err \<Rightarrow> Inl (ErrWrap ''failed to unmarshal label announcement'' err)
      | Inr ann \<Rightarrow>
          (case Validate L ann of
             Some err \<Rightarrow> Inl err
           | None \<Rightarrow> Inr ann))"

section \<open>Package pubsub: the GossipSub manager (manager.go)\<close>

text \<open>
  The fields of \<open>Manager\<close> the handlers read. A \<open>peer.ID\<close> is its string form.
  \<open>topicPublish\<close> is \<open>m.topic.Publish\<close>: the error it returns for a payload, if any.
  The callback \<open>onLabelAnnouncement\<close> acts on the state of its owner, so it is an
  argument of \<open>handleMessages\<close>, \<open>None\<close> when it is nil.
\<close>

record Manager =
  host_ID :: string
  localPeerID :: string
  topicPublish :: "bytes \<Rightarrow> error option"

definition PublishLabels :: "pubsub_lib \<Rightarrow> Manager \<Rightarrow> time \<Rightarrow> string \<Rightarrow> string list \<Rightarrow> error option" where
  "PublishLabels L m now cid labelList =
     (let labelStrings = labelList;
          announcement = \<lparr>CID = cid, PeerID = localPeerID m, Labels = labelStrings, Timestamp = now\<rparr>
      in case Validate L announcement of
           Some err \<Rightarrow> Some (ErrWrap ''invalid announcement'' err)
         | None \<Rightarrow>
             (case Marshal L announcement of
                Inl err \<Rightarrow> Some (ErrWrap ''failed to marshal announcement'' err)
              | Inr data \<Rightarrow>
                  (case topicPublish m data of
                     Some err \<Rightarrow> Some (ErrWrap ''failed to publish announcement'' err)
                   | None \<Rightarrow> None)))"




section \<open>The datastore\<close>

text \<open>
  \<open>types.Datastore\<close> is the keyed byte store behind \<open>r.dstore\<close>: \<open>kv\<close> is its
  content in the order a query walks it, one pair per key. Every call can fail; which
  ones do is fixed by \<open>getErr\<close>, \<open>putErr\<close>, \<open>queryErr\<close> (opening a prefix query) and
  \<open>resultErr\<close> (a single query result carrying an error), and stays the same while one
  operation of the router runs, as does the context. A put that fails leaves the content
  as it is. \<open>journal\<close> lists the \<open>Put\<close> calls the store has received, oldest first,
  whether they succeeded or not.
\<close>

record Datastore =
  kv :: "(string \<times> bytes) list"
  journal :: "(string \<times> bytes) list"
  getErr :: "string \<Rightarrow> error option"
  putErr :: "string \<Rightarrow> bytes \<Rightarrow> error option"
  queryErr :: "string \<Rightarrow> error option"
  resultErr :: "string \<Rightarrow> error option"

definition dsGet :: "Datastore \<Rightarrow> string \<Rightarrow> error + bytes" where
  "dsGet ds key =
     (case getErr ds key of
        Some err \<Rightarrow> Inl err
      | None \<Rightarrow>
          (case map_of (kv ds) key of
             None \<Rightarrow> Inl (ErrExternal ''datastore: key not found'')
           | Some v \<Rightarrow> Inr v))"

definition dsPut :: "Datastore \<Rightarrow> string \<Rightarrow> bytes \<Rightarrow> error option \<times> Datastore" where
  "dsPut ds key v =
     (case putErr ds key v of
        Some err \<Rightarrow> (Some err, ds\<lparr>journal := journal ds @ [(key, v)]\<rparr>)
      | None \<Rightarrow>
          (None, ds\<lparr>kv := AList.update key v (kv ds),
                    journal := journal ds @ [(key, v)]\<rparr>))"

datatype query_result = Result string bytes | ResultError error

definition dsQuery :: "Datastore \<Rightarrow> string \<Rightarrow> error + query_result list" where
  "dsQuery ds pfx =
     (case queryErr ds pfx of
        Some err \<Rightarrow> Inl err
      | None \<Rightarrow>
          Inr (map (\<lambda>(k, v). case resultErr ds k of Some err \<Rightarrow> ResultError err | None \<Rightarrow> Result k v)
                   (filter (\<lambda>(k, v). prefix pfx k) (kv ds))))"

text \<open>A \<open>context.Context\<close> is what \<open>ctx.Err()\<close> returns: \<open>None\<close> while it is live.\<close>

type_synonym Context = "error option"

section \<open>Package routing: the remote router\<close>

record NamespaceEntry =
  Namespace :: string
  Key :: string
  Value :: bytes

text \<open>
  Modelled from the spec: the prefixes \<open>labels.LabelTypeSkill.Prefix()\<close>,
  \<open>LabelTypeDomain\<close>, \<open>LabelTypeModule\<close> and \<open>LabelTypeLocator\<close> of package labels, which
  is not among the sources. The spec gives the closed set skills, domains, modules,
  locators and the key grammar \<open>/{ns}/{label-path}/{cid}/{peer}\<close>.
\<close>

definition namespaces :: "string list" where
  "namespaces = [''/skills/'', ''/domains/'', ''/modules/'', ''/locators/'']"

fun drainResults :: "string \<Rightarrow> query_result list \<Rightarrow> NamespaceEntry list" where
  "drainResults namespace [] = []"
| "drainResults namespace (ResultError err # results) = drainResults namespace results"
| "drainResults namespace (Result k v # results) =
     \<lparr>Namespace = namespace, Key = k, Value = v\<rparr> # drainResults namespace results"

fun queryNamespaces ::
  "Context \<Rightarrow> Datastore \<Rightarrow> string list \<Rightarrow> NamespaceEntry list \<Rightarrow> error + NamespaceEntry list" where
  "queryNamespaces ctx dstore [] entries = Inr entries"
| "queryNamespaces ctx dstore (namespace # rest) entries =
     (case ctx of
        Some err \<Rightarrow> Inl (ErrWrap ''namespace query canceled'' err)
      | None \<Rightarrow>
          (case dsQuery dstore namespace of
             Inl err \<Rightarrow> queryNamespaces ctx dstore rest entries
           | Inr results \<Rightarrow>
               queryNamespaces ctx dstore rest (entries @ drainResults namespace results)))"

definition QueryAllNamespaces :: "Context \<Rightarrow> Datastore \<Rightarrow> error + NamespaceEntry list" where
  "QueryAllNamespaces ctx dstore = queryNamespaces ctx dstore namespaces []"

text \<open>
  \<open>labels.LabelMetadata\<close>, the stored value. A multiaddress is its list of components,
  each a protocol code with its value.
\<close>

record LabelMetadata =
  metaTimestamp :: time
  LastSeen :: time

type_synonym multiaddr = "(nat \<times> string) list"

text \<open>
  What package routing takes from outside this file. Of this repository:
  \<open>ParseEnhancedLabelKey\<close> (the label, the CID and the PeerID of a key, or an error),
  \<open>BuildEnhancedLabelKey\<close>, \<open>GetLabelsFromRecord\<close>, \<open>QueryMatchesLabels\<close> and
  \<open>deduplicateQueries\<close>. Of libraries: \<open>datastore.NewKey\<close>, \<open>cid.Decode\<close>, the
  code \<open>p2p.DirProtocolCode\<close>, and encoding/json at \<open>LabelMetadata\<close> and at a list of
  multiaddresses. \<open>'q\<close> is \<open>routingv1.RecordQuery\<close>, \<open>'r\<close> is \<open>corev1.Record\<close>.
\<close>

record ('q, 'r) routing_lib =
  ParseEnhancedLabelKey :: "string \<Rightarrow> error + (string \<times> string \<times> string)"
  BuildEnhancedLabelKey :: "string \<Rightarrow> string \<Rightarrow> string \<Rightarrow> string"
  GetLabelsFromRecord :: "'r \<Rightarrow> string list"
  QueryMatchesLabels :: "'q \<Rightarrow> string list \<Rightarrow> bool"
  deduplicateQueries :: "'q list \<Rightarrow> 'q list"
  NewKey :: "string \<Rightarrow> string"
  cidDecode :: "string \<Rightarrow> error + string"
  DirProtocolCode :: nat
  jsonMarshalMeta :: "LabelMetadata \<Rightarrow> error + bytes"
  jsonUnmarshalMeta :: "bytes \<Rightarrow> error + LabelMetadata"
  jsonMarshalAddrs :: "multiaddr list \<Rightarrow> error + bytes"
  jsonUnmarshalAddrs :: "bytes \<Rightarrow> error + multiaddr list"

text \<open>
  The fields of \<open>routeRemote\<close> the handlers read: \<open>hostID\<close> is
  \<open>r.server.Host().ID().String()\<close>, \<open>dhtProvide\<close> is \<open>r.server.DHT().Provide\<close>,
  \<open>servicePull\<close> is \<open>r.service.Pull\<close> at a peer and a CID. The datastore changes, so
  it is passed to each operation and returned by it.
\<close>

record 'r routeRemote =
  hostID :: string
  dhtProvide :: "string \<Rightarrow> error option"
  servicePull :: "string \<Rightarrow> string \<Rightarrow> error + 'r"
  pubsubManager :: "Manager option"

subsection \<open>Publishing\<close>

text \<open>The lines \<open>publishToNetwork\<close> writes to the log about the GossipSub step.\<close>

datatype log_line =
    WarnGossipPublishFailed string error
  | DebugGossipPublished string nat

definition publishToNetwork ::
  "pubsub_lib \<Rightarrow> ('q, 'r) routing_lib \<Rightarrow> 'r routeRemote \<Rightarrow> time \<Rightarrow> string \<Rightarrow> 'r
     \<Rightarrow> error option \<times> log_line list" where
  "publishToNetwork L lib r now cidStr record =
     (case cidDecode lib cidStr of
        Inl err \<Rightarrow> (Some (ErrWrap ''failed to parse CID'' err), [])
      | Inr decodedCID \<Rightarrow>
          (case dhtProvide r decodedCID of
             Some err \<Rightarrow> (Some (ErrWrap ''failed to announce CID to DHT'' err), [])
           | None \<Rightarrow>
               (case pubsubManager r of
                  None \<Rightarrow> (None, [])
                | Some m \<Rightarrow>
                    (let labelList = GetLabelsFromRecord lib record
                     in if length labelList > 0
                        then (case PublishLabels L m now cidStr labelList of
                                Some err \<Rightarrow> (None, [WarnGossipPublishFailed cidStr err])
                              | None \<Rightarrow> (None, [DebugGossipPublished cidStr (length labelList)]))
                        else (None, [])))))"

record RecordRef =
  Cid :: string

definition Publish ::
  "pubsub_lib \<Rightarrow> ('q, 'r) routing_lib \<Rightarrow> 'r routeRemote \<Rightarrow> time \<Rightarrow> RecordRef \<Rightarrow> 'r
     \<Rightarrow> error option \<times> log_line list" where
  "Publish L lib r now ref record =
     (case publishToNetwork L lib r now (Cid ref) record of
        (Some err, logs) \<Rightarrow> (Some (ErrWrap ''rpc error: code = Internal'' err), logs)
      | (None, logs) \<Rightarrow> (None, logs))"

subsection \<open>Searching\<close>

text \<open>
  Modelled from the spec: \<open>DefaultMinMatchScore\<close> of the package's constants, which the
  spec gives as 1, and \<open>safeIntToUint32\<close>, which the spec describes as saturating into
  the unsigned 32-bit range. Neither is among the sources.
\<close>

definition DefaultMinMatchScore :: "32 word" where
  "DefaultMinMatchScore = 1"

definition safeIntToUint32 :: "int \<Rightarrow> 32 word" where
  "safeIntToUint32 val =
     (if val < 0 then 0
      else if val > 4294967295 then 4294967295
      else word_of_int val)"

record 'q SearchRequest =
  Queries :: "'q list"
  Limit :: "32 word"
  MinMatchScore :: "32 word"

text \<open>\<open>routingv1.Peer\<close> and \<open>routingv1.SearchResponse\<close>.\<close>

record RoutingPeer =
  Id :: string
  PeerAddrs :: "string list"

record 'q SearchResponse =
  RecordRef :: RecordRef
  RespPeer :: RoutingPeer
  MatchQueries :: "'q list"
  MatchScore :: "32 word"

fun collectLabels :: "('q, 'r) routing_lib \<Rightarrow> string \<Rightarrow> string \<Rightarrow> NamespaceEntry list \<Rightarrow> string list" where
  "collectLabels lib cid peerID [] = []"
| "collectLabels lib cid peerID (entry # rest) =
     (case ParseEnhancedLabelKey lib (Key entry) of
        Inl err \<Rightarrow> collectLabels lib cid peerID rest
      | Inr (label, keyCID, keyPeerID) \<Rightarrow>
          if keyCID = cid \<and> keyPeerID = peerID
          then label # collectLabels lib cid peerID rest
          else collectLabels lib cid peerID rest)"

definition getRemoteRecordLabels ::
  "('q, 'r) routing_lib \<Rightarrow> Context \<Rightarrow> Datastore \<Rightarrow> string \<Rightarrow> string \<Rightarrow> string list" where
  "getRemoteRecordLabels lib ctx dstore cid peerID =
     (case QueryAllNamespaces ctx dstore of
        Inl err \<Rightarrow> []
      | Inr nsEntries \<Rightarrow> collectLabels lib cid peerID nsEntries)"

definition calculateMatchScore ::
  "('q, 'r) routing_lib \<Rightarrow> Context \<Rightarrow> Datastore \<Rightarrow> string \<Rightarrow> 'q list \<Rightarrow> string
     \<Rightarrow> 'q list \<times> 32 word" where
  "calculateMatchScore lib ctx dstore cid queries peerID =
     (if length queries = 0 then ([], 0)
      else let labels = getRemoteRecordLabels lib ctx dstore cid peerID
           in if length labels = 0 then ([], 0)
              else let matchingQueries = filter (\<lambda>query. QueryMatchesLabels lib query labels) queries;
                       score = safeIntToUint32 (int (length matchingQueries))
                   in (matchingQueries, score))"

fun ValueForProtocol :: "multiaddr \<Rightarrow> nat \<Rightarrow> error + string" where
  "ValueForProtocol [] code = Inl (ErrExternal ''protocol not found in multiaddr'')"
| "ValueForProtocol ((c, v) # comps) code =
     (if c = code then Inr v else ValueForProtocol comps code)"

fun dirValueOfProtocols :: "('q, 'r) routing_lib \<Rightarrow> multiaddr \<Rightarrow> nat list \<Rightarrow> string option" where
  "dirValueOfProtocols lib addr [] = None"
| "dirValueOfProtocols lib addr (protocolCode # protocols) =
     (if protocolCode = DirProtocolCode lib
      then (case ValueForProtocol addr (DirProtocolCode lib) of
              Inl err \<Rightarrow> dirValueOfProtocols lib addr protocols
            | Inr v \<Rightarrow> Some v)
      else dirValueOfProtocols lib addr protocols)"

fun dirValueOfAddrs :: "('q, 'r) routing_lib \<Rightarrow> multiaddr list \<Rightarrow> string" where
  "dirValueOfAddrs lib [] = []"
| "dirValueOfAddrs lib (addr # multiaddrs) =
     (case dirValueOfProtocols lib addr (map fst addr) of
        Some v \<Rightarrow> v
      | None \<Rightarrow> dirValueOfAddrs lib multiaddrs)"

definition getDirectoryAPIAddress ::
  "('q, 'r) routing_lib \<Rightarrow> Datastore \<Rightarrow> string \<Rightarrow> string" where
  "getDirectoryAPIAddress lib dstore peerID =
     (let key = NewKey lib (''peer_addrs/'' @ peerID)
      in case dsGet dstore key of
           Inl err \<Rightarrow> []
         | Inr addresses \<Rightarrow>
             (case jsonUnmarshalAddrs lib addresses of
                Inl err \<Rightarrow> []
              | Inr multiaddrs \<Rightarrow> dirValueOfAddrs lib multiaddrs))"

definition createPeerInfo :: "('q, 'r) routing_lib \<Rightarrow> Datastore \<Rightarrow> string \<Rightarrow> RoutingPeer" where
  "createPeerInfo lib dstore peerID =
     (let dirAPIAddr = getDirectoryAPIAddress lib dstore peerID
      in \<lparr>Id = peerID, PeerAddrs = [dirAPIAddr]\<rparr>)"

text \<open>
  The loop of \<open>searchRemoteRecords\<close> over the scanned entries. \<open>processedCIDs\<close> is the
  Go map from CID to bool, absent keys reading false; the result is what the loop sends
  on \<open>outCh\<close>, in order.
\<close>

fun searchEntries ::
  "('q, 'r) routing_lib \<Rightarrow> Context \<Rightarrow> Datastore \<Rightarrow> string \<Rightarrow> 'q list \<Rightarrow> int \<Rightarrow> 32 word
     \<Rightarrow> NamespaceEntry list \<Rightarrow> (string \<Rightarrow> bool) \<Rightarrow> int \<Rightarrow> 'q SearchResponse list" where
  "searchEntries lib ctx dstore localID queries limitInt minMatchScore [] processedCIDs processedCount = []"
| "searchEntries lib ctx dstore localID queries limitInt minMatchScore (entry # rest) processedCIDs processedCount =
     (if limitInt > 0 \<and> processedCount \<ge> limitInt then []
      else case ParseEnhancedLabelKey lib (Key entry) of
        Inl err \<Rightarrow>
          searchEntries lib ctx dstore localID queries limitInt minMatchScore rest processedCIDs processedCount
      | Inr (label, keyCID, keyPeerID) \<Rightarrow>
          if keyPeerID = localID
          then searchEntries lib ctx dstore localID queries limitInt minMatchScore rest processedCIDs processedCount
          else if processedCIDs keyCID
          then searchEntries lib ctx dstore localID queries limitInt minMatchScore rest processedCIDs processedCount
          else (case calculateMatchScore lib ctx dstore keyCID queries keyPeerID of
                  (matchQueries, score) \<Rightarrow>
                    if score \<ge> minMatchScore
                    then \<lparr>RecordRef = \<lparr>Cid = keyCID\<rparr>,
                          RespPeer = createPeerInfo lib dstore keyPeerID,
                          MatchQueries = matchQueries,
                          MatchScore = score\<rparr>
                         # (if limitInt > 0 \<and> processedCount + 1 \<ge> limitInt then []
                            else searchEntries lib ctx dstore localID queries limitInt minMatchScore rest
                                   (processedCIDs(keyCID := True)) (processedCount + 1))
                    else searchEntries lib ctx dstore localID queries limitInt minMatchScore rest
                           processedCIDs processedCount))"

definition searchRemoteRecords ::
  "('q, 'r) routing_lib \<Rightarrow> 'r routeRemote \<Rightarrow> Context \<Rightarrow> Datastore \<Rightarrow> 'q list \<Rightarrow> 32 word \<Rightarrow> 32 word
     \<Rightarrow> 'q SearchResponse list" where
  "searchRemoteRecords lib r ctx dstore queries limit minMatchScore =
     (let localID = hostID r;
          limitInt = uint limit
      in case QueryAllNamespaces ctx dstore of
           Inl err \<Rightarrow> []
         | Inr nsEntries \<Rightarrow>
             searchEntries lib ctx dstore localID queries limitInt minMatchScore nsEntries (\<lambda>c. False) 0)"

text \<open>
  \<open>Search\<close> returns the channel and the error; the channel is the list of responses
  sent on it before it is closed.
\<close>

definition Search ::
  "('q, 'r) routing_lib \<Rightarrow> 'r routeRemote \<Rightarrow> Context \<Rightarrow> Datastore \<Rightarrow> 'q SearchRequest
     \<Rightarrow> 'q SearchResponse list \<times> error option" where
  "Search lib r ctx dstore req =
     (let originalQueries = Queries req;
          deduplicatedQueries = deduplicateQueries lib originalQueries;
          minMatchScore = (if MinMatchScore req < DefaultMinMatchScore
                           then DefaultMinMatchScore else MinMatchScore req)
      in (searchRemoteRecords lib r ctx dstore deduplicatedQueries (Limit req) minMatchScore, None))"

subsection \<open>Reconciling provider notifications and gossip announcements\<close>

text \<open>
  A provider notification, \<open>handlerSync\<close>: the reference of the record and the
  \<open>peer.AddrInfo\<close> of the peer that provides it.
\<close>

record AddrInfo =
  ID :: string
  Addrs :: "multiaddr list"

record handlerSync =
  Ref :: RecordRef
  Peer :: AddrInfo

fun cachedAmong :: "('q, 'r) routing_lib \<Rightarrow> string \<Rightarrow> string \<Rightarrow> NamespaceEntry list \<Rightarrow> bool" where
  "cachedAmong lib cid peerID [] = False"
| "cachedAmong lib cid peerID (entry # rest) =
     (case ParseEnhancedLabelKey lib (Key entry) of
        Inl err \<Rightarrow> cachedAmong lib cid peerID rest
      | Inr (label, keyCID, keyPeerID) \<Rightarrow>
          if keyCID = cid \<and> keyPeerID = peerID then True
          else cachedAmong lib cid peerID rest)"

definition hasRemoteRecordCached ::
  "('q, 'r) routing_lib \<Rightarrow> Context \<Rightarrow> Datastore \<Rightarrow> string \<Rightarrow> string \<Rightarrow> bool" where
  "hasRemoteRecordCached lib ctx dstore cid peerID =
     (case QueryAllNamespaces ctx dstore of
        Inl err \<Rightarrow> False
      | Inr nsEntries \<Rightarrow> cachedAmong lib cid peerID nsEntries)"

text \<open>
  The loop that caches one metadata value under the enhanced key of each label. Both
  \<open>handleLabelAnnouncement\<close> and the pull fallback of
  \<open>handleCIDProviderNotification\<close> run it, with their own metadata.
\<close>

fun cacheLabels ::
  "('q, 'r) routing_lib \<Rightarrow> string \<Rightarrow> string \<Rightarrow> LabelMetadata \<Rightarrow> string list \<Rightarrow> Datastore \<Rightarrow> Datastore" where
  "cacheLabels lib cid peerID metadata [] dstore = dstore"
| "cacheLabels lib cid peerID metadata (label # rest) dstore =
     (let enhancedKey = BuildEnhancedLabelKey lib label cid peerID
      in case jsonMarshalMeta lib metadata of
           Inl err \<Rightarrow> cacheLabels lib cid peerID metadata rest dstore
         | Inr metadataBytes \<Rightarrow>
             (case dsPut dstore (NewKey lib enhancedKey) metadataBytes of
                (err, dstore') \<Rightarrow> cacheLabels lib cid peerID metadata rest dstore'))"


definition updateLabelMetadataTimestamp ::
  "('q, 'r) routing_lib \<Rightarrow> Datastore \<Rightarrow> string \<Rightarrow> bytes \<Rightarrow> time \<Rightarrow> error option \<times> Datastore" where
  "updateLabelMetadataTimestamp lib dstore key val timestamp =
     (case jsonUnmarshalMeta lib val of
        Inl err \<Rightarrow> (Some (ErrWrap ''failed to unmarshal label metadata'' err), dstore)
      | Inr metadata \<Rightarrow>
          (let metadata' = metadata\<lparr>LastSeen := timestamp\<rparr>
           in case jsonMarshalMeta lib metadata' of
                Inl err \<Rightarrow> (Some (ErrWrap ''failed to marshal label metadata'' err), dstore)
              | Inr metadataBytes \<Rightarrow>
                  (case dsPut dstore (NewKey lib key) metadataBytes of
                     (Some err, dstore') \<Rightarrow> (Some (ErrWrap ''failed to save label metadata'' err), dstore')
                   | (None, dstore') \<Rightarrow> (None, dstore'))))"

fun updateEntries ::
  "('q, 'r) routing_lib \<Rightarrow> time \<Rightarrow> string \<Rightarrow> string \<Rightarrow> NamespaceEntry list \<Rightarrow> Datastore \<Rightarrow> Datastore" where
  "updateEntries lib now cid peerID [] dstore = dstore"
| "updateEntries lib now cid peerID (entry # rest) dstore =
     (case ParseEnhancedLabelKey lib (Key entry) of
        Inl err \<Rightarrow> updateEntries lib now cid peerID rest dstore
      | Inr (label, keyCID, keyPeerID) \<Rightarrow>
          if keyCID = cid \<and> keyPeerID = peerID
          then (case updateLabelMetadataTimestamp lib dstore (Key entry) (Value entry) now of
                  (err, dstore') \<Rightarrow> updateEntries lib now cid peerID rest dstore')
          else updateEntries lib now cid peerID rest dstore)"

definition updateRemoteRecordLastSeen ::
  "('q, 'r) routing_lib \<Rightarrow> Context \<Rightarrow> time \<Rightarrow> Datastore \<Rightarrow> string \<Rightarrow> string \<Rightarrow> Datastore" where
  "updateRemoteRecordLastSeen lib ctx now dstore cid peerID =
     (case QueryAllNamespaces ctx dstore of
        Inl err \<Rightarrow> dstore
      | Inr nsEntries \<Rightarrow> updateEntries lib now cid peerID nsEntries dstore)"

text \<open>
  The first step of \<open>handleCIDProviderNotification\<close> after the self check: the peer's
  addresses are stored when the peer has some and \<open>Get\<close> finds none. When
  \<open>json.Marshal\<close> fails the source logs it and puts the nil slice.
\<close>

definition storePeerAddrs :: "('q, 'r) routing_lib \<Rightarrow> handlerSync \<Rightarrow> Datastore \<Rightarrow> Datastore" where
  "storePeerAddrs lib notif dstore =
     (let peerIDStr = ID (Peer notif)
      in if length (Addrs (Peer notif)) > 0
         then (let key = NewKey lib (''peer_addrs/'' @ peerIDStr)
               in case dsGet dstore key of
                    Inr found \<Rightarrow> dstore
                  | Inl err \<Rightarrow>
                      (let addresses = (case jsonMarshalAddrs lib (Addrs (Peer notif)) of
                                          Inl err \<Rightarrow> []
                                        | Inr b \<Rightarrow> b)
                       in snd (dsPut dstore key addresses)))
         else dstore)"

text \<open>
  The handler returns the datastore it leaves and the calls of \<open>r.service.Pull\<close> it
  made, each with the peer and the CID it asked for.
\<close>

definition handleCIDProviderNotification ::
  "('q, 'r) routing_lib \<Rightarrow> 'r routeRemote \<Rightarrow> Context \<Rightarrow> time \<Rightarrow> handlerSync \<Rightarrow> Datastore
     \<Rightarrow> Datastore \<times> (string \<times> string) list" where
  "handleCIDProviderNotification lib r ctx now notif dstore =
     (let peerIDStr = ID (Peer notif)
      in if peerIDStr = hostID r then (dstore, [])
         else
           (let dstore1 = storePeerAddrs lib notif dstore
            in if hasRemoteRecordCached lib ctx dstore1 (Cid (Ref notif)) peerIDStr
               then (updateRemoteRecordLastSeen lib ctx now dstore1 (Cid (Ref notif)) peerIDStr, [])
               else
                 (case servicePull r peerIDStr (Cid (Ref notif)) of
                    Inl err \<Rightarrow> (dstore1, [(peerIDStr, Cid (Ref notif))])
                  | Inr record \<Rightarrow>
                      (let labelList = GetLabelsFromRecord lib record
                       in if length labelList = 0
                          then (dstore1, [(peerIDStr, Cid (Ref notif))])
                          else (cacheLabels lib (Cid (Ref notif)) peerIDStr
                                  \<lparr>metaTimestamp = now, LastSeen = now\<rparr> labelList dstore1,
                                [(peerIDStr, Cid (Ref notif))])))))"

section \<open>The reconciler's writes, as the specification words them\<close>

text \<open>
  An entry belongs to a remote record when its key parses and carries the record's CID
  and PeerID.
\<close>

definition matchesRecord :: "('q, 'r) routing_lib \<Rightarrow> string \<Rightarrow> string \<Rightarrow> NamespaceEntry \<Rightarrow> bool" where
  "matchesRecord lib cid peerID entry =
     (case ParseEnhancedLabelKey lib (Key entry) of
        Inl err \<Rightarrow> False
      | Inr (label, keyCID, keyPeerID) \<Rightarrow> keyCID = cid \<and> keyPeerID = peerID)"

text \<open>
  Refreshing entries: for each entry whose value decodes, one put at the entry's key of
  the decoded metadata with \<open>last_seen\<close> set to the given time and \<open>timestamp\<close> kept.
  An entry whose value does not decode, or whose new value does not encode, gets none.
\<close>

fun refreshPuts :: "('q, 'r) routing_lib \<Rightarrow> time \<Rightarrow> NamespaceEntry list \<Rightarrow> (string \<times> bytes) list" where
  "refreshPuts lib now [] = []"
| "refreshPuts lib now (entry # rest) =
     (case jsonUnmarshalMeta lib (Value entry) of
        Inl err \<Rightarrow> refreshPuts lib now rest
      | Inr md \<Rightarrow>
          (case jsonMarshalMeta lib \<lparr>metaTimestamp = metaTimestamp md, LastSeen = now\<rparr> of
             Inl err \<Rightarrow> refreshPuts lib now rest
           | Inr b \<Rightarrow> (NewKey lib (Key entry), b) # refreshPuts lib now rest))"

text \<open>
  Caching labels: for each label one put of the encoded metadata at the datastore key of
  \<open>build(label, cid, peer)\<close>; none when the metadata does not encode.
\<close>

definition labelPuts ::
  "('q, 'r) routing_lib \<Rightarrow> string \<Rightarrow> string \<Rightarrow> LabelMetadata \<Rightarrow> string list \<Rightarrow> (string \<times> bytes) list" where
  "labelPuts lib cid peerID metadata labels =
     (case jsonMarshalMeta lib metadata of
        Inl err \<Rightarrow> []
      | Inr b \<Rightarrow> map (\<lambda>label. (NewKey lib (BuildEnhancedLabelKey lib label cid peerID), b)) labels)"

text \<open>
  The content of a store after a sequence of puts: each put that the store does not
  fail replaces or adds the value of its key, in order.
\<close>

fun applyPuts ::
  "(string \<Rightarrow> bytes \<Rightarrow> error option) \<Rightarrow> (string \<times> bytes) list \<Rightarrow> (string \<times> bytes) list
     \<Rightarrow> (string \<times> bytes) list" where
  "applyPuts failing [] content = content"
| "applyPuts failing ((k, v) # puts) content =
     applyPuts failing puts (if failing k v = None then AList.update k v content else content)"




section \<open>An example deployment\<close>

text \<open>
  Concrete values for the parameters above, on which the theorems below are run.

  Modelled from the spec: \<open>BuildEnhancedLabelKey\<close> and \<open>ParseEnhancedLabelKey\<close>, which
  are not among the sources. The spec gives the key as \<open>/{namespace}/{label-tail}/{cid}/{peerID}\<close>,
  built by canonical composition and parsed by splitting on the path separator, the last
  two segments being the CID and the PeerID; parsing fails for a key that does not begin
  with a known namespace or whose tail has no label, CID and PeerID.
\<close>

fun splitOn :: "char \<Rightarrow> string \<Rightarrow> string list" where
  "splitOn sep [] = [[]]"
| "splitOn sep (c # cs) =
     (if c = sep then [] # splitOn sep cs
      else (case splitOn sep cs of
              [] \<Rightarrow> [[c]]
            | part # parts \<Rightarrow> (c # part) # parts))"

fun joinWith :: "string \<Rightarrow> string list \<Rightarrow> string" where
  "joinWith sep [] = []"
| "joinWith sep [part] = part"
| "joinWith sep (part # parts) = part @ sep @ joinWith sep parts"

definition BuildEnhancedLabelKey_spec :: "string \<Rightarrow> string \<Rightarrow> string \<Rightarrow> string" where
  "BuildEnhancedLabelKey_spec label cid peerID = label @ ''/'' @ cid @ ''/'' @ peerID"

definition ParseEnhancedLabelKey_spec :: "string \<Rightarrow> error + (string \<times> string \<times> string)" where
  "ParseEnhancedLabelKey_spec key =
     (case splitOn CHR ''/'' key of
        [] # ns # seg1 # seg2 # seg3 # segs \<Rightarrow>
          (let tail = seg1 # seg2 # seg3 # segs
           in if ''/'' @ ns @ ''/'' \<in> set namespaces
              then Inr (''/'' @ joinWith ''/'' (ns # butlast (butlast tail)),
                        last (butlast tail), last tail)
              else Inl (ErrExternal ''invalid enhanced label key''))
      | _ \<Rightarrow> Inl (ErrExternal ''invalid enhanced label key''))"

text \<open>
  Stand-ins for encoding/json: an announcement is its fields separated by bars, the
  timestamp in unary and the labels separated by commas; a metadata value is its two
  times in unary. Anything else fails to decode.
\<close>

definition exMarshalAnn :: "LabelAnnouncement \<Rightarrow> error + bytes" where
  "exMarshalAnn a =
     Inr (CID a @ ''|'' @ PeerID a @ ''|'' @ replicate (nat (Timestamp a)) CHR ''t'' @ ''|''
          @ joinWith '','' (Labels a))"

definition exUnmarshalAnn :: "bytes \<Rightarrow> error + LabelAnnouncement" where
  "exUnmarshalAnn data =
     (case splitOn CHR ''|'' data of
        [c, p, t, ls] \<Rightarrow>
          if list_all (\<lambda>x. x = CHR ''t'') t
          then Inr \<lparr>CID = c, PeerID = p,
                    Labels = (if ls = [] then [] else splitOn CHR '','' ls),
                    Timestamp = int (length t)\<rparr>
          else Inl (ErrExternal ''invalid character'')
      | _ \<Rightarrow> Inl (ErrExternal ''invalid character''))"

definition exPubsub :: pubsub_lib where
  "exPubsub = \<lparr>MaxMessageSize = 64, MaxLabelsPerAnnouncement = 3,
               jsonMarshalAnn = exMarshalAnn, jsonUnmarshalAnn = exUnmarshalAnn\<rparr>"

definition exAnn :: LabelAnnouncement where
  "exAnn = \<lparr>CID = ''c1'', PeerID = ''peerB'',
             Labels = [''/skills/AI/ML'', ''/domains/research'', ''/modules/tf''], Timestamp = 3\<rparr>"

definition exAnnData :: bytes where
  "exAnnData = ''c1|peerB|ttt|/skills/AI/ML,/domains/research,/modules/tf''"

definition exMarshalMeta :: "LabelMetadata \<Rightarrow> error + bytes" where
  "exMarshalMeta md =
     Inr (replicate (nat (metaTimestamp md)) CHR ''t'' @ replicate (nat (LastSeen md)) CHR ''s'')"

definition exUnmarshalMeta :: "bytes \<Rightarrow> error + LabelMetadata" where
  "exUnmarshalMeta b =
     (let ts = takeWhile (\<lambda>c. c = CHR ''t'') b;
          ls = dropWhile (\<lambda>c. c = CHR ''t'') b
      in if list_all (\<lambda>c. c = CHR ''s'') ls
         then Inr \<lparr>metaTimestamp = int (length ts), LastSeen = int (length ls)\<rparr>
         else Inl (ErrExternal ''invalid character''))"

definition exDirCode :: nat where
  "exDirCode = 65535"

definition exMarshalAddrs :: "multiaddr list \<Rightarrow> error + bytes" where
  "exMarshalAddrs addrs =
     Inr (joinWith '','' (map (\<lambda>a. case ValueForProtocol a exDirCode of Inr v \<Rightarrow> v | Inl err \<Rightarrow> []) addrs))"

definition exUnmarshalAddrs :: "bytes \<Rightarrow> error + multiaddr list" where
  "exUnmarshalAddrs b = Inr (map (\<lambda>v. [(exDirCode, v)]) (splitOn CHR '','' b))"

definition exNewKey :: "string \<Rightarrow> string" where
  "exNewKey s = (case s of CHR ''/'' # rest \<Rightarrow> s | _ \<Rightarrow> ''/'' @ s)"

text \<open>
  In the example a query is the label it asks for, a record is the list of its labels,
  and a CID decodes when it is not empty.
\<close>

definition exLib :: "(string, string list) routing_lib" where
  "exLib = \<lparr>ParseEnhancedLabelKey = ParseEnhancedLabelKey_spec,
            BuildEnhancedLabelKey = BuildEnhancedLabelKey_spec,
            GetLabelsFromRecord = (\<lambda>record. record),
            QueryMatchesLabels = (\<lambda>query labels. query \<in> set labels),
            deduplicateQueries = remdups,
            NewKey = exNewKey,
            cidDecode = (\<lambda>s. if s = [] then Inl (ErrExternal ''invalid cid'') else Inr s),
            DirProtocolCode = exDirCode,
            jsonMarshalMeta = exMarshalMeta,
            jsonUnmarshalMeta = exUnmarshalMeta,
            jsonMarshalAddrs = exMarshalAddrs,
            jsonUnmarshalAddrs = exUnmarshalAddrs\<rparr>"

text \<open>
  The local node is \<open>peerA\<close>. Its gossip topic accepts every payload but one, its DHT
  provides every CID but one, and only \<open>peerB\<close> serves record \<open>c1\<close>.
\<close>

definition exManager :: Manager where
  "exManager = \<lparr>host_ID = ''peerA'', localPeerID = ''peerA'',
                topicPublish = (\<lambda>data. if prefix ''c9|'' data
                                        then Some (ErrExternal ''topic closed'') else None)\<rparr>"

definition exRemote :: "(string list) routeRemote" where
  "exRemote = \<lparr>hostID = ''peerA'',
               dhtProvide = (\<lambda>c. if c = ''c8'' then Some (ErrExternal ''no peers in table'') else None),
               servicePull = (\<lambda>p c. if p = ''peerB'' \<and> c = ''c1''
                                     then Inr [''/skills/AI/ML'', ''/domains/research'']
                                     else Inl (ErrExternal ''pull failed'')),
               pubsubManager = Some exManager\<rparr>"

definition exEmptyStore :: Datastore where
  "exEmptyStore = \<lparr>kv = [], journal = [],
                   getErr = (\<lambda>k. None), putErr = (\<lambda>k v. None),
                   queryErr = (\<lambda>p. None), resultErr = (\<lambda>k. None)\<rparr>"

text \<open>
  A store that holds record \<open>c1\<close> of peer \<open>p1\<close> with one label, record \<open>c2\<close> of peer
  \<open>p2\<close> with two, a record of the local node, and the addresses of \<open>p2\<close>.
\<close>

definition exStore :: Datastore where
  "exStore = exEmptyStore\<lparr>kv :=
     [(''/skills/AI/ML/c1/p1'', ''ts''),
      (''/skills/AI/ML/c2/p2'', ''ts''),
      (''/skills/AI/ML/c3/peerA'', ''ts''),
      (''/domains/research/c2/p2'', ''ts''),
      (''/peer_addrs/p2'', ''10.0.0.2:8888'')]\<rparr>"

definition exRequest :: "string SearchRequest" where
  "exRequest = \<lparr>Queries = [''/skills/AI/ML'', ''/domains/research'', ''/skills/AI/ML''],
                Limit = 0, MinMatchScore = 0\<rparr>"


text \<open>
  A store in which the gossip announcement of record \<open>c1\<close> of \<open>peerB\<close> is cached under
  two labels, and the same store with one of the two values damaged.
\<close>

definition exCachedStore :: Datastore where
  "exCachedStore = exEmptyStore\<lparr>kv :=
     [(''/skills/AI/ML/c1/peerB'', ''tttss''),
      (''/domains/research/c1/peerB'', ''tttss''),
      (''/skills/AI/ML/c2/p2'', ''ts'')]\<rparr>"

definition exDamagedStore :: Datastore where
  "exDamagedStore = exEmptyStore\<lparr>kv :=
     [(''/skills/AI/ML/c1/peerB'', ''not-json''),
      (''/domains/research/c1/peerB'', ''tttss'')]\<rparr>"

definition exNotif :: handlerSync where
  "exNotif = \<lparr>Ref = \<lparr>Cid = ''c1''\<rparr>, Peer = \<lparr>ID = ''peerB'', Addrs = []\<rparr>\<rparr>"

section \<open>Properties of the wire format\<close>

lemma Validate_None_iff:
  "Validate L a = None \<longleftrightarrow>
     CID a \<noteq> [] \<and> PeerID a \<noteq> [] \<and> 1 \<le> length (Labels a) \<and>
     length (Labels a) \<le> MaxLabelsPerAnnouncement L \<and> Timestamp a \<noteq> 0"
  by (auto simp: Validate_def Suc_le_eq)

lemma Unmarshal_Inr_iff:
  "UnmarshalLabelAnnouncement L data = Inr a \<longleftrightarrow>
     length data \<le> MaxMessageSize L \<and> jsonUnmarshalAnn L data = Inr a \<and> Validate L a = None"
  by (auto simp: UnmarshalLabelAnnouncement_def split: sum.splits option.splits)


lemma exUnmarshalAnn_exAnnData: "exUnmarshalAnn exAnnData = Inr exAnn"
  by (simp add: exUnmarshalAnn_def exAnn_def exAnnData_def)

text \<open>
  C3. \<open>UnmarshalLabelAnnouncement\<close> returns an announcement exactly when the input is at
  most \<open>MaxMessageSize\<close> bytes long, \<open>json.Unmarshal\<close> decodes it, and the decoded
  announcement has a CID, a PeerID, between one and \<open>MaxLabelsPerAnnouncement\<close> labels and
  a timestamp that is not zero; what it returns is the decoded announcement. An input
  in range that is otherwise well formed is accepted with exactly
  \<open>MaxLabelsPerAnnouncement\<close> labels (the constant being positive) and rejected with one
  more.
\<close>

theorem UnmarshalLabelAnnouncement_succeeds_iff:
  "((\<exists>a. UnmarshalLabelAnnouncement L data = Inr a) \<longleftrightarrow>
      length data \<le> MaxMessageSize L \<and>
      (\<exists>a. jsonUnmarshalAnn L data = Inr a \<and> CID a \<noteq> [] \<and> PeerID a \<noteq> [] \<and>
           1 \<le> length (Labels a) \<and> length (Labels a) \<le> MaxLabelsPerAnnouncement L \<and>
           Timestamp a \<noteq> 0)) \<and>
   (UnmarshalLabelAnnouncement L data = Inr b \<longrightarrow> jsonUnmarshalAnn L data = Inr b) \<and>
   (length data \<le> MaxMessageSize L \<and> jsonUnmarshalAnn L data = Inr b \<and>
    CID b \<noteq> [] \<and> PeerID b \<noteq> [] \<and> Timestamp b \<noteq> 0 \<and> 0 < MaxLabelsPerAnnouncement L \<longrightarrow>
      (length (Labels b) = MaxLabelsPerAnnouncement L \<longrightarrow>
         UnmarshalLabelAnnouncement L data = Inr b) \<and>
      (length (Labels b) = MaxLabelsPerAnnouncement L + 1 \<longrightarrow>
         UnmarshalLabelAnnouncement L data = Inl ErrTooManyLabels))"
proof (intro conjI impI)
  show "(\<exists>a. UnmarshalLabelAnnouncement L data = Inr a) \<longleftrightarrow>
      length data \<le> MaxMessageSize L \<and>
      (\<exists>a. jsonUnmarshalAnn L data = Inr a \<and> CID a \<noteq> [] \<and> PeerID a \<noteq> [] \<and>
           1 \<le> length (Labels a) \<and> length (Labels a) \<le> MaxLabelsPerAnnouncement L \<and>
           Timestamp a \<noteq> 0)"
    unfolding Unmarshal_Inr_iff Validate_None_iff by blast
next
  assume "UnmarshalLabelAnnouncement L data = Inr b"
  then show "jsonUnmarshalAnn L data = Inr b"
    by (simp add: Unmarshal_Inr_iff)
next
  assume h: "length data \<le> MaxMessageSize L \<and> jsonUnmarshalAnn L data = Inr b \<and>
    CID b \<noteq> [] \<and> PeerID b \<noteq> [] \<and> Timestamp b \<noteq> 0 \<and> 0 < MaxLabelsPerAnnouncement L"
    and n: "length (Labels b) = MaxLabelsPerAnnouncement L"
  show "UnmarshalLabelAnnouncement L data = Inr b"
    unfolding Unmarshal_Inr_iff Validate_None_iff using h n by simp
next
  assume h: "length data \<le> MaxMessageSize L \<and> jsonUnmarshalAnn L data = Inr b \<and>
    CID b \<noteq> [] \<and> PeerID b \<noteq> [] \<and> Timestamp b \<noteq> 0 \<and> 0 < MaxLabelsPerAnnouncement L"
    and n: "length (Labels b) = MaxLabelsPerAnnouncement L + 1"
  have "Validate L b = Some ErrTooManyLabels"
    using h n by (simp add: Validate_def)
  then show "UnmarshalLabelAnnouncement L data = Inl ErrTooManyLabels"
    using h by (simp add: UnmarshalLabelAnnouncement_def)
qed

theorem UnmarshalLabelAnnouncement_succeeds_iff_witness:
  "length exAnnData \<le> MaxMessageSize exPubsub \<and>
   jsonUnmarshalAnn exPubsub exAnnData = Inr exAnn \<and>
   CID exAnn \<noteq> [] \<and> PeerID exAnn \<noteq> [] \<and> Timestamp exAnn \<noteq> 0 \<and>
   0 < MaxLabelsPerAnnouncement exPubsub \<and>
   length (Labels exAnn) = MaxLabelsPerAnnouncement exPubsub \<and>
   UnmarshalLabelAnnouncement exPubsub exAnnData = Inr exAnn \<and>
   jsonUnmarshalAnn exPubsub ''c1|peerB|ttt|/skills/a,/skills/b,/skills/c,/skills/d''
     = Inr (exAnn\<lparr>Labels := [''/skills/a'', ''/skills/b'', ''/skills/c'', ''/skills/d'']\<rparr>) \<and>
   UnmarshalLabelAnnouncement exPubsub ''c1|peerB|ttt|/skills/a,/skills/b,/skills/c,/skills/d''
     = Inl ErrTooManyLabels"
proof -
  let ?data4 = "''c1|peerB|ttt|/skills/a,/skills/b,/skills/c,/skills/d''"
  let ?ann4 = "exAnn\<lparr>Labels := [''/skills/a'', ''/skills/b'', ''/skills/c'', ''/skills/d'']\<rparr>"
  have ju: "jsonUnmarshalAnn exPubsub exAnnData = Inr exAnn"
    by (simp add: exPubsub_def exUnmarshalAnn_exAnnData)
  have rest: "length exAnnData \<le> MaxMessageSize exPubsub \<and>
    CID exAnn \<noteq> [] \<and> PeerID exAnn \<noteq> [] \<and> Timestamp exAnn \<noteq> 0 \<and>
    0 < MaxLabelsPerAnnouncement exPubsub \<and>
    length (Labels exAnn) = MaxLabelsPerAnnouncement exPubsub"
    by (simp add: exPubsub_def exAnn_def exAnnData_def)
  from UnmarshalLabelAnnouncement_succeeds_iff [of exPubsub exAnnData exAnn] ju rest
  have ok: "UnmarshalLabelAnnouncement exPubsub exAnnData = Inr exAnn"
    by blast
  have ju4: "jsonUnmarshalAnn exPubsub ?data4 = Inr ?ann4"
    by (simp add: exPubsub_def exUnmarshalAnn_def exAnn_def)
  have rest4: "length ?data4 \<le> MaxMessageSize exPubsub \<and>
    CID ?ann4 \<noteq> [] \<and> PeerID ?ann4 \<noteq> [] \<and> Timestamp ?ann4 \<noteq> 0 \<and>
    0 < MaxLabelsPerAnnouncement exPubsub \<and>
    length (Labels ?ann4) = MaxLabelsPerAnnouncement exPubsub + 1"
    by (simp add: exPubsub_def exAnn_def)
  from UnmarshalLabelAnnouncement_succeeds_iff [of exPubsub ?data4 ?ann4] ju4 rest4
  have no: "UnmarshalLabelAnnouncement exPubsub ?data4 = Inl ErrTooManyLabels"
    by blast
  from ju rest ok ju4 no show ?thesis by blast
qed



section \<open>The example deployment, evaluated\<close>

lemma ex_scan: "QueryAllNamespaces None exStore = Inr [\<lparr>Namespace = ''/skills/'', Key = ''/skills/AI/ML/c1/p1'',
         Value = ''ts''\<rparr>,
      \<lparr>Namespace = ''/skills/'', Key = ''/skills/AI/ML/c2/p2'',
         Value = ''ts''\<rparr>,
      \<lparr>Namespace = ''/skills/'', Key = ''/skills/AI/ML/c3/peerA'',
         Value = ''ts''\<rparr>,
      \<lparr>Namespace = ''/domains/'', Key = ''/domains/research/c2/p2'',
         Value = ''ts''\<rparr>]"
  by (simp add: QueryAllNamespaces_def namespaces_def exStore_def exEmptyStore_def dsQuery_def)

lemma ex_parse:
  "ParseEnhancedLabelKey exLib ''/skills/AI/ML/c1/p1'' = Inr (''/skills/AI/ML'', ''c1'', ''p1'')"
  "ParseEnhancedLabelKey exLib ''/skills/AI/ML/c2/p2'' = Inr (''/skills/AI/ML'', ''c2'', ''p2'')"
  "ParseEnhancedLabelKey exLib ''/skills/AI/ML/c3/peerA'' = Inr (''/skills/AI/ML'', ''c3'', ''peerA'')"
  "ParseEnhancedLabelKey exLib ''/domains/research/c2/p2'' = Inr (''/domains/research'', ''c2'', ''p2'')"
  by (simp_all add: exLib_def ParseEnhancedLabelKey_spec_def namespaces_def)

lemma ex_labels:
  "getRemoteRecordLabels exLib None exStore ''c1'' ''p1'' = [''/skills/AI/ML'']"
  "getRemoteRecordLabels exLib None exStore ''c2'' ''p2'' = [''/skills/AI/ML'', ''/domains/research'']"
  by (simp_all add: getRemoteRecordLabels_def ex_scan ex_parse)

lemma ex_host: "hostID exRemote = ''peerA''"
  by (simp add: exRemote_def)

lemma ex_match:
  "QueryMatchesLabels exLib q labels = (q \<in> set labels)"
  by (simp add: exLib_def)

lemma ex_score:
  "calculateMatchScore exLib None exStore ''c1'' [''/domains/research'', ''/skills/AI/ML''] ''p1''
     = ([''/skills/AI/ML''], 1)"
  "calculateMatchScore exLib None exStore ''c2'' [''/domains/research'', ''/skills/AI/ML''] ''p2''
     = ([''/domains/research'', ''/skills/AI/ML''], 2)"
  by (simp_all add: calculateMatchScore_def ex_labels ex_match safeIntToUint32_def)

lemma ex_peer:
  "createPeerInfo exLib exStore ''p1'' = \<lparr>RoutingPeer.Id = ''p1'', PeerAddrs = [[]]\<rparr>"
  "createPeerInfo exLib exStore ''p2'' = \<lparr>RoutingPeer.Id = ''p2'', PeerAddrs = [''10.0.0.2:8888'']\<rparr>"
  by (simp_all add: createPeerInfo_def getDirectoryAPIAddress_def dsGet_def exLib_def exStore_def
      exEmptyStore_def exNewKey_def exUnmarshalAddrs_def exDirCode_def)

lemma ex_dedup: "deduplicateQueries exLib [''/skills/AI/ML'', ''/domains/research'', ''/skills/AI/ML''] = [''/domains/research'', ''/skills/AI/ML'']"
  by (simp add: exLib_def)

lemma ex_search: "Search exLib exRemote None exStore exRequest =
   ([\<lparr>RecordRef = \<lparr>Cid = ''c1''\<rparr>,
      RespPeer = \<lparr>RoutingPeer.Id = ''p1'', PeerAddrs = [[]]\<rparr>,
      MatchQueries = [''/skills/AI/ML''], MatchScore = 1\<rparr>,
   \<lparr>RecordRef = \<lparr>Cid = ''c2''\<rparr>,
      RespPeer = \<lparr>RoutingPeer.Id = ''p2'', PeerAddrs = [''10.0.0.2:8888'']\<rparr>,
      MatchQueries = [''/domains/research'', ''/skills/AI/ML''],
      MatchScore = 2\<rparr>],
  None)"
  by (simp add: Search_def searchRemoteRecords_def ex_dedup ex_scan ex_parse ex_score ex_peer
       DefaultMinMatchScore_def Let_def exRequest_def exRemote_def)

section \<open>Properties of searching\<close>

lemma calculateMatchScore_score:
  "calculateMatchScore lib ctx ds cid qs p = (mq, sc) \<Longrightarrow> sc = safeIntToUint32 (int (length mq))"
  by (auto simp: calculateMatchScore_def Let_def safeIntToUint32_def split: if_splits)

lemma safeIntToUint32_unat:
  "n < 2 ^ 32 \<Longrightarrow> unat (safeIntToUint32 (int n)) = n"
  by (simp add: safeIntToUint32_def unat_of_nat)

text \<open>Every response the loop sends comes from a scanned entry in this way.\<close>

lemma searchEntries_emitted:
  "resp \<in> set (searchEntries lib ctx ds lid qs lim mn es proc cnt) \<Longrightarrow>
     \<exists>e label keyCID keyPeerID mq sc.
        e \<in> set es \<and> ParseEnhancedLabelKey lib (Key e) = Inr (label, keyCID, keyPeerID) \<and>
        keyPeerID \<noteq> lid \<and> \<not> proc keyCID \<and>
        calculateMatchScore lib ctx ds keyCID qs keyPeerID = (mq, sc) \<and> mn \<le> sc \<and>
        resp = \<lparr>RecordRef = \<lparr>Cid = keyCID\<rparr>, RespPeer = createPeerInfo lib ds keyPeerID,
                MatchQueries = mq, MatchScore = sc\<rparr>"
proof (induction es arbitrary: proc cnt)
  case Nil
  then show ?case by simp
next
  case (Cons e es)
  show ?case
  proof (cases "ParseEnhancedLabelKey lib (Key e)")
    case (Inl err)
    with Cons.prems have "resp \<in> set (searchEntries lib ctx ds lid qs lim mn es proc cnt)"
      by (simp split: if_splits)
    from Cons.IH [OF this] show ?thesis by auto
  next
    case (Inr t)
    obtain label keyCID keyPeerID where t: "t = (label, keyCID, keyPeerID)"
      by (cases t) auto
    obtain mq sc where c: "calculateMatchScore lib ctx ds keyCID qs keyPeerID = (mq, sc)"
      by (cases "calculateMatchScore lib ctx ds keyCID qs keyPeerID") auto
    from Cons.prems Inr t c consider
        (here) "keyPeerID \<noteq> lid" "\<not> proc keyCID" "mn \<le> sc"
          "resp = \<lparr>RecordRef = \<lparr>Cid = keyCID\<rparr>, RespPeer = createPeerInfo lib ds keyPeerID,
                MatchQueries = mq, MatchScore = sc\<rparr>"
      | (later) "resp \<in> set (searchEntries lib ctx ds lid qs lim mn es proc cnt)"
      | (later') "\<not> proc keyCID"
           "resp \<in> set (searchEntries lib ctx ds lid qs lim mn es (proc(keyCID := True)) (cnt + 1))"
      by (auto split: if_splits)
    then show ?thesis
    proof cases
      case here
      with Inr t c show ?thesis by auto
    next
      case later
      from Cons.IH [OF this] show ?thesis by auto
    next
      case later'
      from Cons.IH [OF later'(2)] show ?thesis by (auto split: if_splits)
    qed
  qed
qed

lemma searchEntries_distinct:
  "distinct (map (\<lambda>resp. Cid (RecordRef resp)) (searchEntries lib ctx ds lid qs lim mn es proc cnt))"
proof (induction es arbitrary: proc cnt)
  case Nil
  then show ?case by simp
next
  case (Cons e es)
  have fresh: "\<And>c resp. resp \<in> set (searchEntries lib ctx ds lid qs lim mn es (proc(c := True)) (cnt + 1))
       \<Longrightarrow> Cid (RecordRef resp) \<noteq> c"
    by (auto dest!: searchEntries_emitted split: if_splits)
  show ?case
    using Cons.IH fresh by (auto split: if_splits sum.splits prod.splits)
qed

lemma Search_emitted:
  assumes "resp \<in> set (fst (Search lib r ctx dstore req))"
  shows "\<exists>es e label keyCID keyPeerID mq sc.
        QueryAllNamespaces ctx dstore = Inr es \<and>
        e \<in> set es \<and> ParseEnhancedLabelKey lib (Key e) = Inr (label, keyCID, keyPeerID) \<and>
        keyPeerID \<noteq> hostID r \<and>
        calculateMatchScore lib ctx dstore keyCID (deduplicateQueries lib (Queries req)) keyPeerID = (mq, sc) \<and>
        (if MinMatchScore req < DefaultMinMatchScore then DefaultMinMatchScore else MinMatchScore req) \<le> sc \<and>
        resp = \<lparr>RecordRef = \<lparr>Cid = keyCID\<rparr>, RespPeer = createPeerInfo lib dstore keyPeerID,
                MatchQueries = mq, MatchScore = sc\<rparr>"
proof (cases "QueryAllNamespaces ctx dstore")
  case (Inl err)
  with assms show ?thesis
    by (simp add: Search_def searchRemoteRecords_def Let_def)
next
  case (Inr es)
  with assms have "resp \<in> set (searchEntries lib ctx dstore (hostID r) (deduplicateQueries lib (Queries req))
       (uint (Limit req))
       (if MinMatchScore req < DefaultMinMatchScore then DefaultMinMatchScore else MinMatchScore req)
       es (\<lambda>c. False) 0)"
    by (simp add: Search_def searchRemoteRecords_def Let_def)
  from searchEntries_emitted [OF this] Inr show ?thesis
    by blast
qed

text \<open>
  C2. Every response \<open>Search\<close> sends has a \<open>match_score\<close> that is the number of its
  \<open>match_queries\<close>, converted by \<open>safeIntToUint32\<close>, so equal to it whenever that number
  fits in 32 bits, and at least \<open>max 1 min_match_score\<close>; a request with
  \<open>min_match_score = 0\<close> is answered as the same request with \<open>min_match_score = 1\<close>.
\<close>

theorem Search_match_score:
  assumes "resp \<in> set (fst (Search lib r ctx dstore req))"
  shows "MatchScore resp = safeIntToUint32 (int (length (MatchQueries resp))) \<and>
         (length (MatchQueries resp) < 2 ^ 32 \<longrightarrow>
            unat (MatchScore resp) = length (MatchQueries resp)) \<and>
         max 1 (MinMatchScore req) \<le> MatchScore resp \<and>
         (MinMatchScore req = 0 \<longrightarrow>
            Search lib r ctx dstore req = Search lib r ctx dstore (req\<lparr>MinMatchScore := 1\<rparr>))"
proof -
  from Search_emitted [OF assms] obtain keyCID keyPeerID mq sc where
    c: "calculateMatchScore lib ctx dstore keyCID (deduplicateQueries lib (Queries req)) keyPeerID = (mq, sc)"
    and m: "(if MinMatchScore req < DefaultMinMatchScore then DefaultMinMatchScore else MinMatchScore req) \<le> sc"
    and r: "resp = \<lparr>RecordRef = \<lparr>Cid = keyCID\<rparr>, RespPeer = createPeerInfo lib dstore keyPeerID,
                MatchQueries = mq, MatchScore = sc\<rparr>"
    by blast
  have s: "MatchScore resp = safeIntToUint32 (int (length (MatchQueries resp)))"
    using calculateMatchScore_score [OF c] r by simp
  have u: "length (MatchQueries resp) < 2 ^ 32 \<longrightarrow> unat (MatchScore resp) = length (MatchQueries resp)"
    using s safeIntToUint32_unat by simp
  have "(if MinMatchScore req < DefaultMinMatchScore then DefaultMinMatchScore else MinMatchScore req)
          = max 1 (MinMatchScore req)"
    by (simp add: DefaultMinMatchScore_def max_def not_less word_le_less_eq)
  with m r have t: "max 1 (MinMatchScore req) \<le> MatchScore resp"
    by simp
  have z: "MinMatchScore req = 0 \<longrightarrow>
      Search lib r ctx dstore req = Search lib r ctx dstore (req\<lparr>MinMatchScore := 1\<rparr>)"
    by (simp add: Search_def DefaultMinMatchScore_def)
  from s u t z show ?thesis by blast
qed

theorem Search_match_score_witness:
  "\<lparr>RecordRef = \<lparr>Cid = ''c2''\<rparr>,
     RespPeer = \<lparr>RoutingPeer.Id = ''p2'', PeerAddrs = [''10.0.0.2:8888'']\<rparr>,
     MatchQueries = [''/domains/research'', ''/skills/AI/ML''], MatchScore = 2\<rparr>
     \<in> set (fst (Search exLib exRemote None exStore exRequest)) \<and>
   MinMatchScore exRequest = 0 \<and>
   max 1 (MinMatchScore exRequest) \<le> (2 :: 32 word) \<and>
   unat (2 :: 32 word) = length [''/domains/research'', ''/skills/AI/ML''] \<and>
   Search exLib exRemote None exStore exRequest =
     Search exLib exRemote None exStore (exRequest\<lparr>MinMatchScore := 1\<rparr>)"
proof -
  let ?resp = "\<lparr>RecordRef = \<lparr>Cid = ''c2''\<rparr>,
     RespPeer = \<lparr>RoutingPeer.Id = ''p2'', PeerAddrs = [''10.0.0.2:8888'']\<rparr>,
     MatchQueries = [''/domains/research'', ''/skills/AI/ML''], MatchScore = (2 :: 32 word)\<rparr>"
  have mem: "?resp \<in> set (fst (Search exLib exRemote None exStore exRequest))"
    by (simp add: ex_search)
  have zero: "MinMatchScore exRequest = 0"
    by (simp add: exRequest_def)
  from Search_match_score [OF mem] zero show ?thesis
    using mem by simp
qed

text \<open>
  C4. The responses of one \<open>Search\<close> call carry pairwise different record CIDs, however
  many enhanced keys the store holds for a CID.
\<close>

theorem Search_no_duplicate_cid:
  "distinct (map (\<lambda>resp. Cid (RecordRef resp)) (fst (Search lib r ctx dstore req)))"
  by (cases "QueryAllNamespaces ctx dstore")
     (simp_all add: Search_def searchRemoteRecords_def Let_def searchEntries_distinct)

theorem Search_no_duplicate_cid_witness:
  "map (\<lambda>resp. Cid (RecordRef resp)) (fst (Search exLib exRemote None exStore exRequest)) = [''c1'', ''c2''] \<and>
   distinct (map (\<lambda>resp. Cid (RecordRef resp)) (fst (Search exLib exRemote None exStore exRequest)))"
  using Search_no_duplicate_cid [of exLib exRemote None exStore exRequest]
  by (simp add: ex_search)

text \<open>
  C8. No response of \<open>Search\<close> names the local node as its peer: every response comes
  from a scanned key whose PeerID, as \<open>ParseEnhancedLabelKey\<close> gives it, is the peer of
  the response and is not the local PeerID.
\<close>

theorem Search_excludes_local_peer:
  assumes "resp \<in> set (fst (Search lib r ctx dstore req))"
  shows "RoutingPeer.Id (RespPeer resp) \<noteq> hostID r \<and>
         (\<exists>es e label. QueryAllNamespaces ctx dstore = Inr es \<and> e \<in> set es \<and>
            ParseEnhancedLabelKey lib (Key e) =
              Inr (label, Cid (RecordRef resp), RoutingPeer.Id (RespPeer resp)))"
proof -
  from Search_emitted [OF assms] obtain es e label keyCID keyPeerID mq sc where
    q: "QueryAllNamespaces ctx dstore = Inr es" and e: "e \<in> set es"
    and p: "ParseEnhancedLabelKey lib (Key e) = Inr (label, keyCID, keyPeerID)"
    and l: "keyPeerID \<noteq> hostID r"
    and r: "resp = \<lparr>RecordRef = \<lparr>Cid = keyCID\<rparr>, RespPeer = createPeerInfo lib dstore keyPeerID,
                MatchQueries = mq, MatchScore = sc\<rparr>"
    by blast
  from r have "Cid (RecordRef resp) = keyCID" "RoutingPeer.Id (RespPeer resp) = keyPeerID"
    by (simp_all add: createPeerInfo_def)
  with q e p l show ?thesis by blast
qed

theorem Search_excludes_local_peer_witness:
  "map (\<lambda>resp. RoutingPeer.Id (RespPeer resp)) (fst (Search exLib exRemote None exStore exRequest))
     = [''p1'', ''p2''] \<and>
   hostID exRemote = ''peerA'' \<and>
   ParseEnhancedLabelKey exLib ''/skills/AI/ML/c3/peerA'' = Inr (''/skills/AI/ML'', ''c3'', ''peerA'') \<and>
   RoutingPeer.Id (RespPeer (hd (fst (Search exLib exRemote None exStore exRequest)))) \<noteq> hostID exRemote"
proof -
  have "hd (fst (Search exLib exRemote None exStore exRequest))
          \<in> set (fst (Search exLib exRemote None exStore exRequest))"
    by (simp add: ex_search)
  from Search_excludes_local_peer [OF this]
  have "RoutingPeer.Id (RespPeer (hd (fst (Search exLib exRemote None exStore exRequest)))) \<noteq> hostID exRemote"
    by blast
  then show ?thesis
    by (simp add: ex_search ex_parse ex_host)
qed

text \<open>
  C10. \<open>Search\<close> returns a nil error for every request. When the namespace scan fails,
  as it does under a cancelled context, the channel is closed with nothing sent.
\<close>

theorem Search_never_errors:
  "snd (Search lib r ctx dstore req) = None \<and>
   (isl (QueryAllNamespaces ctx dstore) \<longrightarrow> fst (Search lib r ctx dstore req) = []) \<and>
   (ctx \<noteq> None \<longrightarrow> isl (QueryAllNamespaces ctx dstore))"
  by (cases "QueryAllNamespaces ctx dstore"; cases ctx)
     (simp_all add: Search_def searchRemoteRecords_def Let_def QueryAllNamespaces_def namespaces_def)

theorem Search_never_errors_witness:
  "Search exLib exRemote (Some ErrCanceled) exStore exRequest = ([], None) \<and>
   isl (QueryAllNamespaces (Some ErrCanceled) exStore) \<and>
   snd (Search exLib exRemote None exStore exRequest) = None"
  using Search_never_errors [of exLib exRemote "Some ErrCanceled" exStore exRequest]
        Search_never_errors [of exLib exRemote None exStore exRequest]
  by (cases "Search exLib exRemote (Some ErrCanceled) exStore exRequest") simp

section \<open>Properties of the datastore and of the caching loops\<close>

text \<open>
  When the context is live and no query fails, the scan returns every entry of the
  store under the four prefixes, namespace by namespace.
\<close>

lemma drainResults_no_error:
  "drainResults ns (map (\<lambda>(k, v). Result k v) xs)
     = map (\<lambda>(k, v). \<lparr>Namespace = ns, Key = k, Value = v\<rparr>) xs"
  by (induction xs) auto

lemma queryNamespaces_no_failure:
  assumes "\<And>p. queryErr ds p = None" and "\<And>k. resultErr ds k = None"
  shows "queryNamespaces None ds nss acc
     = Inr (acc @ concat (map (\<lambda>ns. map (\<lambda>(k, v). \<lparr>Namespace = ns, Key = k, Value = v\<rparr>)
                                        (filter (\<lambda>(k, v). prefix ns k) (kv ds))) nss))"
proof (induction nss arbitrary: acc)
  case Nil
  then show ?case by simp
next
  case (Cons ns nss)
  have "dsQuery ds ns = Inr (map (\<lambda>(k, v). Result k v) (filter (\<lambda>(k, v). prefix ns k) (kv ds)))"
    using assms by (simp add: dsQuery_def)
  with Cons.IH show ?case
    by (simp add: drainResults_no_error)
qed

lemma QueryAllNamespaces_no_failure:
  assumes "\<And>p. queryErr ds p = None" and "\<And>k. resultErr ds k = None"
  shows "QueryAllNamespaces None ds
     = Inr (concat (map (\<lambda>ns. map (\<lambda>(k, v). \<lparr>Namespace = ns, Key = k, Value = v\<rparr>)
                                  (filter (\<lambda>(k, v). prefix ns k) (kv ds))) namespaces))"
  using queryNamespaces_no_failure [OF assms, of namespaces "[]"]
  by (simp add: QueryAllNamespaces_def)

lemma applyPuts_append:
  "applyPuts failing (ps @ qs) content = applyPuts failing qs (applyPuts failing ps content)"
  by (induction ps arbitrary: content) auto

lemma dsPut_effect:
  "journal (snd (dsPut ds k v)) = journal ds @ [(k, v)] \<and>
   kv (snd (dsPut ds k v)) = applyPuts (putErr ds) [(k, v)] (kv ds) \<and>
   putErr (snd (dsPut ds k v)) = putErr ds \<and>
   fst (dsPut ds k v) = putErr ds k v"
  by (simp add: dsPut_def split: option.splits)

lemma cacheLabels_effect:
  "journal (cacheLabels lib cid p md labels ds) = journal ds @ labelPuts lib cid p md labels \<and>
   kv (cacheLabels lib cid p md labels ds) = applyPuts (putErr ds) (labelPuts lib cid p md labels) (kv ds) \<and>
   putErr (cacheLabels lib cid p md labels ds) = putErr ds"
proof (induction labels arbitrary: ds)
  case Nil
  then show ?case by (simp add: labelPuts_def split: sum.splits)
next
  case (Cons l labels)
  show ?case
  proof (cases "jsonMarshalMeta lib md")
    case (Inl err)
    with Cons.IH [of ds] show ?thesis by (simp add: labelPuts_def)
  next
    case (Inr b)
    let ?k = "NewKey lib (BuildEnhancedLabelKey lib l cid p)"
    have step: "cacheLabels lib cid p md (l # labels) ds
                  = cacheLabels lib cid p md labels (snd (dsPut ds ?k b))"
      using Inr by (simp add: Let_def split: prod.splits)
    have lp: "labelPuts lib cid p md (l # labels) = (?k, b) # labelPuts lib cid p md labels"
      using Inr by (simp add: labelPuts_def)
    from Cons.IH [of "snd (dsPut ds ?k b)"] dsPut_effect [of ds ?k b]
    show ?thesis
      unfolding step lp by simp
  qed
qed

lemma updateLabelMetadataTimestamp_effect:
  "journal (snd (updateLabelMetadataTimestamp lib ds (Key e) (Value e) t))
     = journal ds @ refreshPuts lib t [e] \<and>
   kv (snd (updateLabelMetadataTimestamp lib ds (Key e) (Value e) t))
     = applyPuts (putErr ds) (refreshPuts lib t [e]) (kv ds) \<and>
   putErr (snd (updateLabelMetadataTimestamp lib ds (Key e) (Value e) t)) = putErr ds"
proof (cases "jsonUnmarshalMeta lib (Value e)")
  case (Inl err)
  then show ?thesis by (simp add: updateLabelMetadataTimestamp_def)
next
  case (Inr md)
  note dec = this
  have upd: "md\<lparr>LastSeen := t\<rparr> = \<lparr>metaTimestamp = metaTimestamp md, LastSeen = t\<rparr>"
    by simp
  show ?thesis
  proof (cases "jsonMarshalMeta lib \<lparr>metaTimestamp = metaTimestamp md, LastSeen = t\<rparr>")
    case (Inl err)
    with dec show ?thesis by (simp add: updateLabelMetadataTimestamp_def upd)
  next
    case (Inr b)
    have "snd (updateLabelMetadataTimestamp lib ds (Key e) (Value e) t) = snd (dsPut ds (NewKey lib (Key e)) b)"
      using dec Inr
      by (simp add: updateLabelMetadataTimestamp_def upd split: prod.splits option.splits)
    with dsPut_effect [of ds "NewKey lib (Key e)" b] dec Inr
    show ?thesis by simp
  qed
qed

lemma refreshPuts_Cons:
  "refreshPuts lib t (e # es) = refreshPuts lib t [e] @ refreshPuts lib t es"
  by (simp split: sum.splits)

lemma updateEntries_skip:
  "\<not> matchesRecord lib cid p e \<Longrightarrow>
     updateEntries lib t cid p (e # es) ds = updateEntries lib t cid p es ds"
  by (cases "ParseEnhancedLabelKey lib (Key e)") (auto simp: matchesRecord_def split: prod.splits)

lemma updateEntries_step:
  "matchesRecord lib cid p e \<Longrightarrow>
     updateEntries lib t cid p (e # es) ds
       = updateEntries lib t cid p es (snd (updateLabelMetadataTimestamp lib ds (Key e) (Value e) t))"
  by (cases "ParseEnhancedLabelKey lib (Key e)")
     (auto simp: matchesRecord_def split: prod.splits)

lemma updateEntries_effect:
  "journal (updateEntries lib t cid p es ds)
     = journal ds @ refreshPuts lib t (filter (matchesRecord lib cid p) es) \<and>
   kv (updateEntries lib t cid p es ds)
     = applyPuts (putErr ds) (refreshPuts lib t (filter (matchesRecord lib cid p) es)) (kv ds) \<and>
   putErr (updateEntries lib t cid p es ds) = putErr ds"
proof (induction es arbitrary: ds)
  case Nil
  then show ?case by simp
next
  case (Cons e es)
  show ?case
  proof (cases "matchesRecord lib cid p e")
    case False
    show ?thesis
      unfolding updateEntries_skip [OF False] using False Cons.IH [of ds] by simp
  next
    case True
    let ?ds = "snd (updateLabelMetadataTimestamp lib ds (Key e) (Value e) t)"
    let ?rest = "refreshPuts lib t (filter (matchesRecord lib cid p) es)"
    have f: "refreshPuts lib t (filter (matchesRecord lib cid p) (e # es))
           = refreshPuts lib t [e] @ ?rest"
      by (simp only: filter.simps True if_True
            refreshPuts_Cons [of lib t e "filter (matchesRecord lib cid p) es"])
    have one: "journal ?ds = journal ds @ refreshPuts lib t [e]"
      "kv ?ds = applyPuts (putErr ds) (refreshPuts lib t [e]) (kv ds)"
      "putErr ?ds = putErr ds"
      using updateLabelMetadataTimestamp_effect [of lib ds e t] by blast+
    have ih: "journal (updateEntries lib t cid p es ?ds) = journal ?ds @ ?rest"
      "kv (updateEntries lib t cid p es ?ds) = applyPuts (putErr ?ds) ?rest (kv ?ds)"
      "putErr (updateEntries lib t cid p es ?ds) = putErr ?ds"
      using Cons.IH [of ?ds] by blast+
    show ?thesis
      unfolding updateEntries_step [OF True] f ih one applyPuts_append by simp
  qed
qed

lemma cachedAmong_iff:
  "cachedAmong lib cid p es \<longleftrightarrow> (\<exists>e \<in> set es. matchesRecord lib cid p e)"
  by (induction es) (auto simp: matchesRecord_def split: sum.splits)

lemma hasRemoteRecordCached_iff:
  "hasRemoteRecordCached lib ctx ds cid p \<longleftrightarrow>
     (\<exists>es. QueryAllNamespaces ctx ds = Inr es \<and> (\<exists>e \<in> set es. matchesRecord lib cid p e))"
  by (cases "QueryAllNamespaces ctx ds") (simp_all add: hasRemoteRecordCached_def cachedAmong_iff)

section \<open>The example stores, evaluated\<close>

lemma ex_parse_peerB:
  "ParseEnhancedLabelKey exLib ''/skills/AI/ML/c1/peerB'' = Inr (''/skills/AI/ML'', ''c1'', ''peerB'')"
  "ParseEnhancedLabelKey exLib ''/domains/research/c1/peerB'' = Inr (''/domains/research'', ''c1'', ''peerB'')"
  by (simp_all add: exLib_def ParseEnhancedLabelKey_spec_def namespaces_def)

lemma ex_build:
  "NewKey exLib (BuildEnhancedLabelKey exLib ''/skills/AI/ML'' ''c1'' ''peerB'') = ''/skills/AI/ML/c1/peerB''"
  "NewKey exLib (BuildEnhancedLabelKey exLib ''/domains/research'' ''c1'' ''peerB'') = ''/domains/research/c1/peerB''"
  "NewKey exLib (BuildEnhancedLabelKey exLib ''/modules/tf'' ''c1'' ''peerB'') = ''/modules/tf/c1/peerB''"
  "NewKey exLib ''/skills/AI/ML/c1/peerB'' = ''/skills/AI/ML/c1/peerB''"
  "NewKey exLib ''/domains/research/c1/peerB'' = ''/domains/research/c1/peerB''"
  by (simp_all add: exLib_def BuildEnhancedLabelKey_spec_def exNewKey_def)

lemma ex_meta:
  "jsonUnmarshalMeta exLib ''tttss'' = Inr \<lparr>metaTimestamp = 3, LastSeen = 2\<rparr>"
  "jsonUnmarshalMeta exLib ''not-json'' = Inl (ErrExternal ''invalid character'')"
  "jsonMarshalMeta exLib \<lparr>metaTimestamp = 3, LastSeen = 5\<rparr> = Inr ''tttsssss''"
  "jsonMarshalMeta exLib \<lparr>metaTimestamp = 5, LastSeen = 5\<rparr> = Inr ''tttttsssss''"
  by (simp_all add: exLib_def exUnmarshalMeta_def exMarshalMeta_def eval_nat_numeral)

lemma ex_scan_cached:
  "QueryAllNamespaces None exCachedStore =
     Inr [\<lparr>Namespace = ''/skills/'', Key = ''/skills/AI/ML/c1/peerB'', Value = ''tttss''\<rparr>,
          \<lparr>Namespace = ''/skills/'', Key = ''/skills/AI/ML/c2/p2'', Value = ''ts''\<rparr>,
          \<lparr>Namespace = ''/domains/'', Key = ''/domains/research/c1/peerB'', Value = ''tttss''\<rparr>]"
  by (simp add: QueryAllNamespaces_def namespaces_def exCachedStore_def exEmptyStore_def dsQuery_def)

lemma ex_scan_damaged:
  "QueryAllNamespaces None exDamagedStore =
     Inr [\<lparr>Namespace = ''/skills/'', Key = ''/skills/AI/ML/c1/peerB'', Value = ''not-json''\<rparr>,
          \<lparr>Namespace = ''/domains/'', Key = ''/domains/research/c1/peerB'', Value = ''tttss''\<rparr>]"
  by (simp add: QueryAllNamespaces_def namespaces_def exDamagedStore_def exEmptyStore_def dsQuery_def)

lemma ex_scan_empty: "QueryAllNamespaces None exEmptyStore = Inr []"
  by (simp add: QueryAllNamespaces_def namespaces_def exEmptyStore_def dsQuery_def)

lemma ex_no_addrs: "storePeerAddrs exLib exNotif ds = ds"
  by (simp add: storePeerAddrs_def exNotif_def)

lemma ex_matches:
  "matchesRecord exLib ''c1'' ''peerB'' \<lparr>Namespace = ns, Key = ''/skills/AI/ML/c1/peerB'', Value = v\<rparr>"
  "matchesRecord exLib ''c1'' ''peerB'' \<lparr>Namespace = ns, Key = ''/domains/research/c1/peerB'', Value = v\<rparr>"
  "\<not> matchesRecord exLib ''c1'' ''peerB'' \<lparr>Namespace = ns, Key = ''/skills/AI/ML/c2/p2'', Value = v\<rparr>"
  by (simp_all add: matchesRecord_def ex_parse_peerB ex_parse)

lemma ex_putErr:
  "putErr exEmptyStore = (\<lambda>k v. None)" "putErr exCachedStore = (\<lambda>k v. None)"
  "putErr exDamagedStore = (\<lambda>k v. None)"
  "journal exEmptyStore = []" "journal exCachedStore = []" "journal exDamagedStore = []"
  by (simp_all add: exEmptyStore_def exCachedStore_def exDamagedStore_def)

section \<open>Properties of the reconciler\<close>

text \<open>
  C9. \<open>updateLabelMetadataTimestamp\<close> (the spec's \<open>updateLastSeen\<close>), given a key,
  the encoded metadata and a time: when the value does not decode it returns an error
  and leaves the store as it was, with no put; when it decodes, the one put it makes is
  at the key and carries the encoding of the metadata whose \<open>last_seen\<close> is the given
  time and whose \<open>timestamp\<close> is the decoded one, it returns an error exactly when the
  store fails that put, and otherwise the store holds the new value at the key. When
  the new metadata does not encode it returns an error with no put.
\<close>

theorem updateLabelMetadataTimestamp_writes:
  "(jsonUnmarshalMeta lib val = Inl err \<longrightarrow>
      updateLabelMetadataTimestamp lib dstore key val t
        = (Some (ErrWrap ''failed to unmarshal label metadata'' err), dstore)) \<and>
   (jsonUnmarshalMeta lib val = Inr md \<and>
    jsonMarshalMeta lib \<lparr>metaTimestamp = metaTimestamp md, LastSeen = t\<rparr> = Inr b \<longrightarrow>
      journal (snd (updateLabelMetadataTimestamp lib dstore key val t))
        = journal dstore @ [(NewKey lib key, b)] \<and>
      fst (updateLabelMetadataTimestamp lib dstore key val t)
        = map_option (ErrWrap ''failed to save label metadata'') (putErr dstore (NewKey lib key) b) \<and>
      (putErr dstore (NewKey lib key) b = None \<longrightarrow>
         map_of (kv (snd (updateLabelMetadataTimestamp lib dstore key val t))) (NewKey lib key) = Some b)) \<and>
   (jsonUnmarshalMeta lib val = Inr md \<and>
    jsonMarshalMeta lib \<lparr>metaTimestamp = metaTimestamp md, LastSeen = t\<rparr> = Inl err \<longrightarrow>
      updateLabelMetadataTimestamp lib dstore key val t
        = (Some (ErrWrap ''failed to marshal label metadata'' err), dstore))"
proof -
  have upd: "md\<lparr>LastSeen := t\<rparr> = \<lparr>metaTimestamp = metaTimestamp md, LastSeen = t\<rparr>"
    by simp
  have a: "jsonUnmarshalMeta lib val = Inl err \<longrightarrow>
      updateLabelMetadataTimestamp lib dstore key val t
        = (Some (ErrWrap ''failed to unmarshal label metadata'' err), dstore)"
    by (simp add: updateLabelMetadataTimestamp_def)
  have c: "jsonUnmarshalMeta lib val = Inr md \<and>
    jsonMarshalMeta lib \<lparr>metaTimestamp = metaTimestamp md, LastSeen = t\<rparr> = Inl err \<longrightarrow>
      updateLabelMetadataTimestamp lib dstore key val t
        = (Some (ErrWrap ''failed to marshal label metadata'' err), dstore)"
    by (simp add: updateLabelMetadataTimestamp_def upd)
  have b: "jsonUnmarshalMeta lib val = Inr md \<and>
    jsonMarshalMeta lib \<lparr>metaTimestamp = metaTimestamp md, LastSeen = t\<rparr> = Inr b \<longrightarrow>
      journal (snd (updateLabelMetadataTimestamp lib dstore key val t))
        = journal dstore @ [(NewKey lib key, b)] \<and>
      fst (updateLabelMetadataTimestamp lib dstore key val t)
        = map_option (ErrWrap ''failed to save label metadata'') (putErr dstore (NewKey lib key) b) \<and>
      (putErr dstore (NewKey lib key) b = None \<longrightarrow>
         map_of (kv (snd (updateLabelMetadataTimestamp lib dstore key val t))) (NewKey lib key) = Some b)"
    by (cases "putErr dstore (NewKey lib key) b")
       (simp_all add: updateLabelMetadataTimestamp_def upd dsPut_def AList.update_conv')
  from a b c show ?thesis by blast
qed

theorem updateLabelMetadataTimestamp_writes_witness:
  "jsonUnmarshalMeta exLib ''tttss'' = Inr \<lparr>metaTimestamp = 3, LastSeen = 2\<rparr> \<and>
   jsonMarshalMeta exLib \<lparr>metaTimestamp = 3, LastSeen = 5\<rparr> = Inr ''tttsssss'' \<and>
   journal (snd (updateLabelMetadataTimestamp exLib exCachedStore ''/skills/AI/ML/c1/peerB'' ''tttss'' 5))
     = [(''/skills/AI/ML/c1/peerB'', ''tttsssss'')] \<and>
   fst (updateLabelMetadataTimestamp exLib exCachedStore ''/skills/AI/ML/c1/peerB'' ''tttss'' 5) = None \<and>
   map_of (kv (snd (updateLabelMetadataTimestamp exLib exCachedStore ''/skills/AI/ML/c1/peerB'' ''tttss'' 5)))
     ''/skills/AI/ML/c1/peerB'' = Some ''tttsssss'' \<and>
   jsonUnmarshalMeta exLib ''not-json'' = Inl (ErrExternal ''invalid character'') \<and>
   updateLabelMetadataTimestamp exLib exDamagedStore ''/skills/AI/ML/c1/peerB'' ''not-json'' 5
     = (Some (ErrWrap ''failed to unmarshal label metadata'' (ErrExternal ''invalid character'')),
        exDamagedStore)"
  using updateLabelMetadataTimestamp_writes
          [of exLib "''tttss''" ErrCanceled exCachedStore "''/skills/AI/ML/c1/peerB''" 5
              "\<lparr>metaTimestamp = 3, LastSeen = 2\<rparr>" "''tttsssss''"]
        updateLabelMetadataTimestamp_writes
          [of exLib "''not-json''" "ErrExternal ''invalid character''" exDamagedStore
              "''/skills/AI/ML/c1/peerB''" 5]
  by (simp add: ex_meta ex_build ex_putErr)

lemma ex_kv:
  "kv exEmptyStore = []"
  "kv exCachedStore = [(''/skills/AI/ML/c1/peerB'', ''tttss''),
      (''/domains/research/c1/peerB'', ''tttss''),
      (''/skills/AI/ML/c2/p2'', ''ts'')]"
  "kv exDamagedStore = [(''/skills/AI/ML/c1/peerB'', ''not-json''),
      (''/domains/research/c1/peerB'', ''tttss'')]"
  by (simp_all add: exEmptyStore_def exCachedStore_def exDamagedStore_def)

lemma ex_cached:
  "hasRemoteRecordCached exLib None exCachedStore ''c1'' ''peerB''"
  "hasRemoteRecordCached exLib None exDamagedStore ''c1'' ''peerB''"
  "\<not> hasRemoteRecordCached exLib None exEmptyStore ''c1'' ''peerB''"
  by (simp_all add: hasRemoteRecordCached_iff ex_scan_cached ex_scan_damaged ex_scan_empty ex_matches)

lemma ex_notif:
  "Cid (Ref exNotif) = ''c1''" "ID (Peer exNotif) = ''peerB''"
  by (simp_all add: exNotif_def)

lemma ex_pull:
  "servicePull exRemote ''peerB'' ''c1'' = Inr [''/skills/AI/ML'', ''/domains/research'']"
  by (simp add: exRemote_def)

text \<open>
  C1. A provider notification about a remote record, with CID \<open>C\<close> and peer \<open>P\<close>,
  after the peer's addresses are stored. When the namespace scan returns an entry whose
  key carries \<open>(C, P)\<close>, the handler makes no pull, and its puts are exactly one for each
  such entry whose value decodes: at the entry's key, the decoded metadata with
  \<open>last_seen = now\<close> and its \<open>timestamp\<close> kept; an entry whose value does not decode is
  left as it is. When the scan returns no such entry, or fails, the handler pulls once
  from \<open>P\<close> for \<open>C\<close>; if the pull fails the store is left as it was, and if it
  succeeds the puts are exactly one for each label of the record, at the datastore key of
  \<open>build(label, C, P)\<close>, of the value with \<open>timestamp = last_seen = now\<close>. In both cases
  the store's content afterwards is the content before with the puts the store did not
  fail applied in order.
\<close>

theorem handleCIDProviderNotification_paths:
  fixes lib :: "('q, 'r) routing_lib" and r :: "'r routeRemote"
    and ctx :: Context and now :: time and notif :: handlerSync and dstore :: Datastore
    and C P dstore1 result
  defines "C \<equiv> Cid (Ref notif)" and "P \<equiv> ID (Peer notif)"
  defines "dstore1 \<equiv> storePeerAddrs lib notif dstore"
  defines "result \<equiv> handleCIDProviderNotification lib r ctx now notif dstore"
  assumes remote: "ID (Peer notif) \<noteq> hostID r"
  shows
    "(hasRemoteRecordCached lib ctx dstore1 C P \<longleftrightarrow>
        (\<exists>es. QueryAllNamespaces ctx dstore1 = Inr es \<and> (\<exists>e \<in> set es. matchesRecord lib C P e))) \<and>
     (hasRemoteRecordCached lib ctx dstore1 C P \<longrightarrow>
        snd result = [] \<and>
        (\<exists>es. QueryAllNamespaces ctx dstore1 = Inr es \<and>
           journal (fst result)
             = journal dstore1 @ refreshPuts lib now (filter (matchesRecord lib C P) es) \<and>
           kv (fst result)
             = applyPuts (putErr dstore1) (refreshPuts lib now (filter (matchesRecord lib C P) es))
                 (kv dstore1))) \<and>
     (\<not> hasRemoteRecordCached lib ctx dstore1 C P \<longrightarrow>
        snd result = [(P, C)] \<and>
        (\<forall>err. servicePull r P C = Inl err \<longrightarrow> fst result = dstore1) \<and>
        (\<forall>record. servicePull r P C = Inr record \<longrightarrow>
           journal (fst result)
             = journal dstore1
               @ labelPuts lib C P \<lparr>metaTimestamp = now, LastSeen = now\<rparr> (GetLabelsFromRecord lib record) \<and>
           kv (fst result)
             = applyPuts (putErr dstore1)
                 (labelPuts lib C P \<lparr>metaTimestamp = now, LastSeen = now\<rparr> (GetLabelsFromRecord lib record))
                 (kv dstore1)))"
proof (intro conjI impI allI)
  show "hasRemoteRecordCached lib ctx dstore1 C P \<longleftrightarrow>
        (\<exists>es. QueryAllNamespaces ctx dstore1 = Inr es \<and> (\<exists>e \<in> set es. matchesRecord lib C P e))"
    by (rule hasRemoteRecordCached_iff)
next
  assume h: "hasRemoteRecordCached lib ctx dstore1 C P"
  then have res: "result = (updateRemoteRecordLastSeen lib ctx now dstore1 C P, [])"
    using remote by (simp add: result_def handleCIDProviderNotification_def Let_def dstore1_def C_def P_def)
  then show "snd result = []" by simp
  from h obtain es where es: "QueryAllNamespaces ctx dstore1 = Inr es"
    unfolding hasRemoteRecordCached_iff by blast
  then have "fst result = updateEntries lib now C P es dstore1"
    using res by (simp add: updateRemoteRecordLastSeen_def)
  with updateEntries_effect [of lib now C P es dstore1] es
  show "\<exists>es. QueryAllNamespaces ctx dstore1 = Inr es \<and>
           journal (fst result)
             = journal dstore1 @ refreshPuts lib now (filter (matchesRecord lib C P) es) \<and>
           kv (fst result)
             = applyPuts (putErr dstore1) (refreshPuts lib now (filter (matchesRecord lib C P) es))
                 (kv dstore1)"
    by simp
next
  assume h: "\<not> hasRemoteRecordCached lib ctx dstore1 C P"
  then show "snd result = [(P, C)]"
    using remote
    by (simp add: result_def handleCIDProviderNotification_def Let_def dstore1_def C_def P_def
             split: sum.splits)
next
  fix err
  assume h: "\<not> hasRemoteRecordCached lib ctx dstore1 C P" and p: "servicePull r P C = Inl err"
  then show "fst result = dstore1"
    using remote
    by (simp add: result_def handleCIDProviderNotification_def Let_def dstore1_def C_def P_def)
next
  fix rcd
  assume h: "\<not> hasRemoteRecordCached lib ctx dstore1 C P" and p: "servicePull r P C = Inr rcd"
  let ?md = "\<lparr>metaTimestamp = now, LastSeen = now\<rparr>"
  let ?labels = "GetLabelsFromRecord lib rcd"
  have res: "fst result = cacheLabels lib C P ?md ?labels dstore1"
    using h p remote
    by (cases ?labels)
       (simp_all add: result_def handleCIDProviderNotification_def Let_def dstore1_def C_def P_def)
  with cacheLabels_effect [of lib C P ?md ?labels dstore1]
  show "journal (fst result) = journal dstore1 @ labelPuts lib C P ?md ?labels"
    and "kv (fst result) = applyPuts (putErr dstore1) (labelPuts lib C P ?md ?labels) (kv dstore1)"
    by simp_all
qed



theorem handleCIDProviderNotification_paths_witness:
  "ID (Peer exNotif) \<noteq> hostID exRemote \<and>
   hasRemoteRecordCached exLib None exCachedStore ''c1'' ''peerB'' \<and>
   snd (handleCIDProviderNotification exLib exRemote None 5 exNotif exCachedStore) = [] \<and>
   journal (fst (handleCIDProviderNotification exLib exRemote None 5 exNotif exCachedStore))
     = [(''/skills/AI/ML/c1/peerB'', ''tttsssss''), (''/domains/research/c1/peerB'', ''tttsssss'')] \<and>
   kv (fst (handleCIDProviderNotification exLib exRemote None 5 exNotif exCachedStore))
     = [(''/skills/AI/ML/c1/peerB'', ''tttsssss''), (''/domains/research/c1/peerB'', ''tttsssss''),
        (''/skills/AI/ML/c2/p2'', ''ts'')] \<and>
   \<not> hasRemoteRecordCached exLib None exEmptyStore ''c1'' ''peerB'' \<and>
   servicePull exRemote ''peerB'' ''c1'' = Inr [''/skills/AI/ML'', ''/domains/research''] \<and>
   snd (handleCIDProviderNotification exLib exRemote None 5 exNotif exEmptyStore) = [(''peerB'', ''c1'')] \<and>
   journal (fst (handleCIDProviderNotification exLib exRemote None 5 exNotif exEmptyStore))
     = [(''/skills/AI/ML/c1/peerB'', ''tttttsssss''), (''/domains/research/c1/peerB'', ''tttttsssss'')] \<and>
   kv (fst (handleCIDProviderNotification exLib exRemote None 5 exNotif exEmptyStore))
     = [(''/skills/AI/ML/c1/peerB'', ''tttttsssss''), (''/domains/research/c1/peerB'', ''tttttsssss'')] \<and>
   servicePull exRemote ''peerB'' ''c5'' = Inl (ErrExternal ''pull failed'') \<and>
   handleCIDProviderNotification exLib exRemote None 5 (exNotif\<lparr>Ref := \<lparr>Cid = ''c5''\<rparr>\<rparr>) exEmptyStore
     = (exEmptyStore, [(''peerB'', ''c5'')])"
proof -
  have remote: "ID (Peer exNotif) \<noteq> hostID exRemote"
    by (simp add: ex_notif ex_host)
  have remote5: "ID (Peer (exNotif\<lparr>Ref := \<lparr>Cid = ''c5''\<rparr>\<rparr>)) \<noteq> hostID exRemote"
    by (simp add: ex_notif ex_host)
  have pull5: "servicePull exRemote ''peerB'' ''c5'' = Inl (ErrExternal ''pull failed'')"
    by (simp add: exRemote_def)
  have nc5: "\<not> hasRemoteRecordCached exLib None exEmptyStore ''c5'' ''peerB''"
    by (simp add: hasRemoteRecordCached_iff ex_scan_empty)
  have failed: "handleCIDProviderNotification exLib exRemote None 5 (exNotif\<lparr>Ref := \<lparr>Cid = ''c5''\<rparr>\<rparr>) exEmptyStore
     = (exEmptyStore, [(''peerB'', ''c5'')])"
    using handleCIDProviderNotification_paths
            [OF remote5, where lib = exLib and ctx = None and dstore = exEmptyStore and now = 5]
          pull5 nc5
    by (cases "handleCIDProviderNotification exLib exRemote None 5 (exNotif\<lparr>Ref := \<lparr>Cid = ''c5''\<rparr>\<rparr>) exEmptyStore")
       (simp add: storePeerAddrs_def ex_notif exNotif_def)
  have fast: "snd (handleCIDProviderNotification exLib exRemote None 5 exNotif exCachedStore) = [] \<and>
   journal (fst (handleCIDProviderNotification exLib exRemote None 5 exNotif exCachedStore))
     = [(''/skills/AI/ML/c1/peerB'', ''tttsssss''), (''/domains/research/c1/peerB'', ''tttsssss'')] \<and>
   kv (fst (handleCIDProviderNotification exLib exRemote None 5 exNotif exCachedStore))
     = [(''/skills/AI/ML/c1/peerB'', ''tttsssss''), (''/domains/research/c1/peerB'', ''tttsssss''),
        (''/skills/AI/ML/c2/p2'', ''ts'')]"
    using handleCIDProviderNotification_paths
            [OF remote, where lib = exLib and ctx = None and dstore = exCachedStore and now = 5]
    by (simp add: ex_no_addrs ex_notif ex_cached ex_scan_cached ex_matches ex_meta ex_build
                  ex_putErr ex_kv)
  have slow: "snd (handleCIDProviderNotification exLib exRemote None 5 exNotif exEmptyStore) = [(''peerB'', ''c1'')] \<and>
   journal (fst (handleCIDProviderNotification exLib exRemote None 5 exNotif exEmptyStore))
     = [(''/skills/AI/ML/c1/peerB'', ''tttttsssss''), (''/domains/research/c1/peerB'', ''tttttsssss'')] \<and>
   kv (fst (handleCIDProviderNotification exLib exRemote None 5 exNotif exEmptyStore))
     = [(''/skills/AI/ML/c1/peerB'', ''tttttsssss''), (''/domains/research/c1/peerB'', ''tttttsssss'')]"
    using handleCIDProviderNotification_paths
            [OF remote, where lib = exLib and ctx = None and dstore = exEmptyStore and now = 5]
    by (simp add: ex_no_addrs ex_notif ex_cached ex_pull labelPuts_def ex_meta ex_build
                  ex_putErr ex_kv exLib_def [THEN arg_cong, of GetLabelsFromRecord])
  from remote fast slow ex_cached ex_pull pull5 failed show ?thesis by blast
qed

text \<open>
  The claim as first stated, that every matching entry is refreshed, fails on a store in
  which a matching entry holds a value that does not decode: the handler finds the
  record cached, makes no pull, and leaves that entry with the value it had.
\<close>

theorem handleCIDProviderNotification_refresh_counterexample:
  "ID (Peer exNotif) \<noteq> hostID exRemote \<and>
   hasRemoteRecordCached exLib None exDamagedStore (Cid (Ref exNotif)) (ID (Peer exNotif)) \<and>
   ParseEnhancedLabelKey exLib ''/skills/AI/ML/c1/peerB'' = Inr (''/skills/AI/ML'', ''c1'', ''peerB'') \<and>
   map_of (kv exDamagedStore) ''/skills/AI/ML/c1/peerB'' = Some ''not-json'' \<and>
   snd (handleCIDProviderNotification exLib exRemote None 5 exNotif exDamagedStore) = [] \<and>
   map_of (kv (fst (handleCIDProviderNotification exLib exRemote None 5 exNotif exDamagedStore)))
     ''/skills/AI/ML/c1/peerB'' = Some ''not-json'' \<and>
   jsonUnmarshalMeta exLib ''not-json'' = Inl (ErrExternal ''invalid character'')"
proof -
  have res: "handleCIDProviderNotification exLib exRemote None 5 exNotif exDamagedStore
      = (updateRemoteRecordLastSeen exLib None 5 exDamagedStore ''c1'' ''peerB'', [])"
    by (simp add: handleCIDProviderNotification_def Let_def ex_notif ex_host ex_no_addrs ex_cached)
  have "kv (updateRemoteRecordLastSeen exLib None 5 exDamagedStore ''c1'' ''peerB'')
      = [(''/skills/AI/ML/c1/peerB'', ''not-json''), (''/domains/research/c1/peerB'', ''tttsssss'')]"
    by (simp add: updateRemoteRecordLastSeen_def ex_scan_damaged ex_parse_peerB
          updateLabelMetadataTimestamp_def ex_meta ex_build dsPut_def ex_putErr ex_kv)
  with res show ?thesis
    by (simp add: ex_notif ex_host ex_cached ex_parse_peerB ex_kv ex_meta)
qed

section \<open>Properties of publishing\<close>

lemma ex_publish_labels:
  "PublishLabels exPubsub exManager 3 ''c9'' [''/skills/AI/ML'']
     = Some (ErrWrap ''failed to publish announcement'' (ErrExternal ''topic closed''))"
  by (simp add: PublishLabels_def Validate_def Marshal_def exPubsub_def exManager_def
        exMarshalAnn_def eval_nat_numeral)

lemma ex_publish_env:
  "cidDecode exLib ''c9'' = Inr ''c9''" "cidDecode exLib ''c8'' = Inr ''c8''"
  "cidDecode exLib [] = Inl (ErrExternal ''invalid cid'')"
  "dhtProvide exRemote ''c9'' = None"
  "dhtProvide exRemote ''c8'' = Some (ErrExternal ''no peers in table'')"
  "pubsubManager exRemote = Some exManager"
  "GetLabelsFromRecord exLib rcd = rcd"
  by (simp_all add: exLib_def exRemote_def)

text \<open>
  C5. \<open>Publish\<close> returns an error exactly when \<open>cid.Decode\<close> fails or the DHT
  \<open>Provide\<close> fails. When both succeed and \<open>PublishLabels\<close> fails, whatever the reason,
  \<open>Publish\<close> returns nil and the failure is a warning in the log.
\<close>

theorem Publish_error_iff:
  "(fst (Publish L lib r now ref rcd) \<noteq> None \<longleftrightarrow>
      isl (cidDecode lib (Cid ref)) \<or>
      (\<exists>d. cidDecode lib (Cid ref) = Inr d \<and> dhtProvide r d \<noteq> None)) \<and>
   (cidDecode lib (Cid ref) = Inr d \<and> dhtProvide r d = None \<and> pubsubManager r = Some m \<and>
    GetLabelsFromRecord lib rcd \<noteq> [] \<and>
    PublishLabels L m now (Cid ref) (GetLabelsFromRecord lib rcd) = Some err \<longrightarrow>
      Publish L lib r now ref rcd = (None, [WarnGossipPublishFailed (Cid ref) err]))"
proof (intro conjI impI)
  show "fst (Publish L lib r now ref rcd) \<noteq> None \<longleftrightarrow>
      isl (cidDecode lib (Cid ref)) \<or>
      (\<exists>d. cidDecode lib (Cid ref) = Inr d \<and> dhtProvide r d \<noteq> None)"
  proof (cases "cidDecode lib (Cid ref)")
    case (Inl e)
    then show ?thesis by (simp add: Publish_def publishToNetwork_def)
  next
    case (Inr c)
    show ?thesis
    proof (cases "dhtProvide r c")
      case (Some e)
      with Inr show ?thesis by (simp add: Publish_def publishToNetwork_def)
    next
      case None
      with Inr show ?thesis
        by (simp add: Publish_def publishToNetwork_def Let_def split: option.splits)
    qed
  qed
next
  assume "cidDecode lib (Cid ref) = Inr d \<and> dhtProvide r d = None \<and> pubsubManager r = Some m \<and>
    GetLabelsFromRecord lib rcd \<noteq> [] \<and>
    PublishLabels L m now (Cid ref) (GetLabelsFromRecord lib rcd) = Some err"
  then show "Publish L lib r now ref rcd = (None, [WarnGossipPublishFailed (Cid ref) err])"
    by (simp add: Publish_def publishToNetwork_def Let_def)
qed

theorem Publish_error_iff_witness:
  "PublishLabels exPubsub exManager 3 ''c9'' [''/skills/AI/ML'']
     = Some (ErrWrap ''failed to publish announcement'' (ErrExternal ''topic closed'')) \<and>
   Publish exPubsub exLib exRemote 3 \<lparr>Cid = ''c9''\<rparr> [''/skills/AI/ML'']
     = (None, [WarnGossipPublishFailed ''c9''
                 (ErrWrap ''failed to publish announcement'' (ErrExternal ''topic closed''))]) \<and>
   dhtProvide exRemote ''c8'' = Some (ErrExternal ''no peers in table'') \<and>
   fst (Publish exPubsub exLib exRemote 3 \<lparr>Cid = ''c8''\<rparr> [''/skills/AI/ML'']) \<noteq> None \<and>
   isl (cidDecode exLib []) \<and>
   fst (Publish exPubsub exLib exRemote 3 \<lparr>Cid = []\<rparr> [''/skills/AI/ML'']) \<noteq> None"
  using Publish_error_iff [of exPubsub exLib exRemote 3 "\<lparr>Cid = ''c9''\<rparr>" "[''/skills/AI/ML'']"
          "''c9''" exManager "ErrWrap ''failed to publish announcement'' (ErrExternal ''topic closed'')"]
        Publish_error_iff [of exPubsub exLib exRemote 3 "\<lparr>Cid = ''c8''\<rparr>" "[''/skills/AI/ML'']"]
        Publish_error_iff [of exPubsub exLib exRemote 3 "\<lparr>Cid = []\<rparr>" "[''/skills/AI/ML'']"]
  by (simp add: ex_publish_labels ex_publish_env)

section \<open>Properties of the gossip receive path\<close>







subsection \<open>Keys built for a PeerID without a path separator\<close>















end
